theory Spec2Isabelle
  imports Main "HOL-Library.Sublist" "HOL-Library.Word"
begin

unbundle bit_operations_syntax

section \<open>Common vocabulary\<close>

text \<open>
  Go errors are modelled by their message: \<open>errors.New m\<close> is the string \<open>m\<close>,
  \<open>errors.Wrap err m\<close> and \<open>fmt.Errorf("m: %w", err)\<close> are \<open>m: err\<close>. A function
  returning \<open>error\<close> returns \<open>error option\<close>, \<open>None\<close> for \<open>nil\<close>.
  A \<open>time.Duration\<close> is its number of nanoseconds.
\<close>

type_synonym error = string
type_synonym duration = int

definition Wrap :: "error \<Rightarrow> string \<Rightarrow> error" where
  "Wrap err msg = msg @ '': '' @ err"

definition Millisecond :: duration where
  "Millisecond = 1000000"

definition Second :: duration where
  "Second = 1000 * Millisecond"

text \<open>\<open>strings.HasPrefix\<close> and \<open>strings.Contains\<close>.\<close>

definition HasPrefix :: "string \<Rightarrow> string \<Rightarrow> bool" where
  "HasPrefix s p = prefix p s"

definition Contains :: "string \<Rightarrow> string \<Rightarrow> bool" where
  "Contains s sub = sublist sub s"

text \<open>The named-pipe prefix \<^verbatim>\<open>\\.\pipe\\<close> (a backslash is the character 0x5C).\<close>

definition pipe_prefix :: string where
  "pipe_prefix = [CHR 0x5C, CHR 0x5C, CHR ''.'', CHR 0x5C] @ ''pipe'' @ [CHR 0x5C]"

section \<open>Readiness: \<open>WaitForSocket\<close> (container/utils.go)\<close>

text \<open>
  \<open>WaitForSocket\<close> creates a context whose deadline is \<open>timeout\<close> from now and a ticker of
  period 100ms. Time is counted from the call. The environment is
  \<^item> \<open>stat t\<close>: whether \<open>os.Stat(socketPath)\<close> succeeds when issued at time \<open>t\<close>;
  \<^item> \<open>tick_first\<close>: which case the \<open>select\<close> takes when a tick and the deadline fall on the
    same instant (Go chooses among ready cases at random).
  The result is the returned error together with the time at which the function returns.
  A probe is taken to cost no time.
\<close>

definition timeout_error :: "string \<Rightarrow> error" where
  "timeout_error socketPath = ''timeout waiting for containerd socket at '' @ socketPath"

text \<open>The \<open>for { select { ... } }\<close> loop; \<open>t\<close> is the time of the last tick consumed.\<close>

function poll_socket ::
  "(duration \<Rightarrow> bool) \<Rightarrow> bool \<Rightarrow> string \<Rightarrow> duration \<Rightarrow> duration \<Rightarrow> error option \<times> duration"
where
  "poll_socket stat tick_first socketPath timeout t =
     (let next = t + 100 * Millisecond in
      if next < timeout \<or> (next = timeout \<and> tick_first) then
        (if stat next then (None, next)
         else poll_socket stat tick_first socketPath timeout next)
      else (Some (timeout_error socketPath), max t timeout))"
  by pat_completeness auto
termination
  by (relation "measure (\<lambda>(stat, tick_first, socketPath, timeout, t). nat (timeout - t))")
     (auto simp: Millisecond_def)

declare poll_socket.simps [simp del]

text \<open>
  For a named pipe the function blocks on \<open>ctx.Done()\<close>. The context is derived from
  \<open>context.Background()\<close> and its \<open>cancel\<close> runs only when the function returns, so the
  channel closes at the deadline and \<open>ctx.Err()\<close> is then \<open>context.DeadlineExceeded\<close>:
  the comparison \<open>ctx.Err() == context.DeadlineExceeded\<close> is \<open>ctx_deadline_exceeded\<close>.
  A deadline that is not in the future has passed at once.
\<close>

definition ctx_deadline_exceeded :: "duration \<Rightarrow> bool" where
  "ctx_deadline_exceeded timeout = True"

definition WaitForSocket ::
  "(duration \<Rightarrow> bool) \<Rightarrow> bool \<Rightarrow> string \<Rightarrow> duration \<Rightarrow> error option \<times> duration"
where
  "WaitForSocket stat tick_first socketPath timeout =
     (if HasPrefix socketPath pipe_prefix then
        (if ctx_deadline_exceeded timeout
         then (Some (timeout_error socketPath), max 0 timeout)
         else (None, max 0 timeout))
      else poll_socket stat tick_first socketPath timeout 0)"

text \<open>The instants of the ticker: the \<open>k\<close>-th tick comes \<open>k\<close> periods after the call.\<close>

definition tick :: "nat \<Rightarrow> duration" where
  "tick k = int k * (100 * Millisecond)"

definition is_tick :: "duration \<Rightarrow> bool" where
  "is_tick t = (0 < t \<and> (100 * Millisecond) dvd t)"

section \<open>The host and the file system of the binary cache (container/utils.go)\<close>

text \<open>
  \<open>runtime.GOOS\<close> ranges over the three build targets of the release configuration.
  \<open>IsRunningOnWindows\<close> does not read it: it compares the environment variable \<open>OS\<close>.
\<close>

datatype goos = Linux | Windows | Darwin

fun goos_name :: "goos \<Rightarrow> string" where
  "goos_name Linux = ''linux''"
| "goos_name Windows = ''windows''"
| "goos_name Darwin = ''darwin''"

record host =
  GOOS :: goos
  env_OS :: string
  homeDir :: string
  BundledBinaryDir :: string
  Executable :: "error + string"

text \<open>
  The lexical path functions of \<open>path/filepath\<close>. A separator is \<open>/\<close>, and on Windows
  the backslash as well. The volume name of a Windows path is its first two characters
  when the second is a colon. \<open>Clean\<close> walks the elements of the rest of the path: an empty
  element and \<open>.\<close> are dropped, \<open>..\<close> removes the element before it (at the root it is
  dropped, at the start of a relative path it is kept), and the elements left are
  joined by the separator of the platform, after the root separator of a rooted path;
  nothing left gives \<open>.\<close>. On Windows a result that was not written as the path itself
  is, and whose first element holds a colon or which starts with \<^verbatim>\<open>\??\<close>, is prefixed so
  that it does not become a drive or a device path. Paths that start with two separators or with
  \<^verbatim>\<open>\??\<close> (UNC and device paths) have volume names of their own and are outside the
  model.
\<close>

definition Separator :: "goos \<Rightarrow> char" where
  "Separator g = (if g = Windows then CHR 0x5C else CHR ''/'')"

definition IsPathSeparator :: "goos \<Rightarrow> char \<Rightarrow> bool" where
  "IsPathSeparator g c = (c = CHR ''/'' \<or> (g = Windows \<and> c = CHR 0x5C))"

definition volumeNameLen :: "goos \<Rightarrow> string \<Rightarrow> nat" where
  "volumeNameLen g path = (if g = Windows \<and> 2 \<le> length path \<and> path ! 1 = CHR '':'' then 2 else 0)"

text \<open>\<open>strings.Join\<close>, and the elements of a path between its separators.\<close>

fun join_with :: "char \<Rightarrow> string list \<Rightarrow> string" where
  "join_with c [] = []"
| "join_with c [x] = x"
| "join_with c (x # y # ys) = x @ c # join_with c (y # ys)"

fun elements :: "(char \<Rightarrow> bool) \<Rightarrow> string \<Rightarrow> string list" where
  "elements sep [] = [[]]"
| "elements sep (c # cs) =
     (if sep c then [] # elements sep cs
      else case elements sep cs of
             [] \<Rightarrow> [[c]]
           | el # els \<Rightarrow> (c # el) # els)"

text \<open>
  The text \<open>Clean\<close> has written for the elements it keeps (\<open>out\<close> holds them, the last
  first), and one element taken by it. With the elements goes a flag: whether any
  character written so far differed from the character of the path at its place, which
  is when \<open>Clean\<close> leaves the path's own text for a buffer.
\<close>

definition written :: "goos \<Rightarrow> bool \<Rightarrow> string list \<Rightarrow> string" where
  "written g rooted out = (if rooted then [Separator g] else []) @ join_with (Separator g) (rev out)"

definition keep_element ::
  "goos \<Rightarrow> bool \<Rightarrow> string \<Rightarrow> string list \<times> bool \<Rightarrow> string \<Rightarrow> string list \<times> bool"
where
  "keep_element g rooted rest st el =
     (el # fst st, snd st \<or> \<not> prefix (written g rooted (el # fst st)) rest)"

definition clean_element ::
  "goos \<Rightarrow> bool \<Rightarrow> string \<Rightarrow> string list \<times> bool \<Rightarrow> string \<Rightarrow> string list \<times> bool"
where
  "clean_element g rooted rest st el =
     (if el = [] \<or> el = ''.'' then st
      else if el = ''..'' then
        (case fst st of
           [] \<Rightarrow> (if rooted then st else keep_element g rooted rest st ''..'')
         | el' # out' \<Rightarrow>
             (if el' = ''..'' then keep_element g rooted rest st ''..'' else (out', snd st)))
      else keep_element g rooted rest st el)"

definition postClean :: "goos \<Rightarrow> nat \<Rightarrow> bool \<Rightarrow> string \<Rightarrow> string" where
  "postClean g volLen buffered body =
     (if g \<noteq> Windows \<or> volLen \<noteq> 0 \<or> \<not> buffered then body
      else if CHR '':'' \<in> set (takeWhile (\<lambda>c. \<not> IsPathSeparator g c) body)
      then ''.'' @ [Separator g] @ body
      else if 3 \<le> length body \<and> IsPathSeparator g (body ! 0) \<and> body ! 1 = CHR ''?'' \<and> body ! 2 = CHR ''?''
      then [Separator g] @ ''.'' @ body
      else body)"

definition Clean :: "goos \<Rightarrow> string \<Rightarrow> string" where
  "Clean g path =
     (let volLen = volumeNameLen g path;
          rest = drop volLen path;
          rooted = (rest \<noteq> [] \<and> IsPathSeparator g (hd rest));
          st = foldl (clean_element g rooted rest) ([], rooted \<and> hd rest \<noteq> Separator g)
                 (elements (IsPathSeparator g) rest);
          body = written g rooted (fst st)
      in take volLen path @
         (if body = [] then postClean g volLen (snd st \<or> \<not> prefix ''.'' rest) ''.''
          else postClean g volLen (snd st) body))"

text \<open>
  \<open>filepath.Join\<close>: the elements from the first non-empty one on, joined by the
  separator and cleaned; the empty string when there is none. On Windows the elements
  are put together one by one: no separator is added after a separator or a colon, and
  after a separator the leading separators of the next element are dropped.
\<close>

fun join_windows :: "string \<Rightarrow> string list \<Rightarrow> string" where
  "join_windows b [] = b"
| "join_windows b (e # es) =
     (let e1 = (if b \<noteq> [] \<and> IsPathSeparator Windows (last b)
                then dropWhile (IsPathSeparator Windows) e else e);
          b1 = (if b = [] \<or> IsPathSeparator Windows (last b) \<or> last b = CHR '':''
                then b else b @ [CHR 0x5C])
      in join_windows (b1 @ e1) es)"

definition Join :: "goos \<Rightarrow> string list \<Rightarrow> string" where
  "Join g elems =
     (if g = Windows then
        (let b = join_windows [] elems in if b = [] then [] else Clean g b)
      else case dropWhile (\<lambda>e. e = []) elems of
             [] \<Rightarrow> []
           | es \<Rightarrow> Clean g (join_with (CHR ''/'') es))"

text \<open>\<open>filepath.Dir\<close>: the volume name, then the path up to its last separator, cleaned.\<close>

definition Dir :: "goos \<Rightarrow> string \<Rightarrow> string" where
  "Dir g path =
     (let volLen = volumeNameLen g path;
          rest = drop volLen path
      in take volLen path @ Clean g (rev (dropWhile (\<lambda>c. \<not> IsPathSeparator g c) (rev rest))))"

text \<open>
  A regular file has permission bits and a content. The cache directory
  \<open>BundledBinaryDir\<close> and its subdirectory \<open>cni\<close> are \<open>None\<close> while they do not exist, and
  otherwise list their regular files by name. \<open>bundled\<close> holds the regular files shipped
  beside the executable, by path; \<open>bundled_cni\<close> the entries of the shipped plugin
  directory, each with its \<open>IsDir\<close> flag. Everything the program does to the outside is
  appended to \<open>trace\<close>: a log line, a sleep, the time spent in a readiness or exit wait, a
  directory or file created, bytes written to a file, the engine subprocess spawned by
  \<open>s.cmd.Start()\<close>, a \<open>wsl.exe\<close> process spawned by \<open>StartWSL2Environment\<close>, the interrupt
  signal and the kill sent to the engine, the log file closed, a WSL2 distribution
  terminated.
\<close>

record regfile =
  mode :: "32 word"
  bytes :: "8 word list"

datatype event =
    Log string
  | Sleep duration
  | Waited duration
  | MadeDir string
  | Created string "32 word"
  | Wrote string nat
  | SpawnEngine string "string list"
  | SpawnWSL "string list"
  | Interrupt
  | Kill
  | CloseLogFile
  | Terminate string

record world =
  cache :: "(string \<times> regfile) list option"
  cni :: "(string \<times> regfile) list option"
  bundled :: "(string \<times> regfile) list"
  bundled_cni :: "(string \<times> bool \<times> 8 word list) list option"
  trace :: "event list"

definition emit :: "event \<Rightarrow> world \<Rightarrow> world" where
  "emit ev w = w\<lparr>trace := trace w @ [ev]\<rparr>"

text \<open>
  What the operating system answers during one operation, where the answer is not
  determined by the modelled files: the failures of file operations, \<open>exec.LookPath\<close>,
  and \<open>os.Stat\<close> of paths outside the cache.
\<close>

record faults =
  mkdir_err :: "string \<Rightarrow> error option"
  open_err :: "string \<Rightarrow> error option"
  create_err :: "string \<Rightarrow> error option"
  copy_err :: "string \<Rightarrow> (nat \<times> error) option"
  readdir_err :: "string \<Rightarrow> error option"
  stat_ok :: "string \<Rightarrow> bool"
  LookPath :: "string \<Rightarrow> string option"

definition stat_error :: "string \<Rightarrow> error" where
  "stat_error path = ''stat '' @ path @ '': no such file or directory''"

text \<open>\<open>os.MkdirAll\<close> of the cache directory and of its \<open>cni\<close> subdirectory: nothing to do
  and no error when the directory exists.\<close>

definition MkdirAll_cache :: "host \<Rightarrow> 'a faults_scheme \<Rightarrow> world \<Rightarrow> error option \<times> world" where
  "MkdirAll_cache h f w =
     (if cache w \<noteq> None then (None, w)
      else case mkdir_err f (BundledBinaryDir h) of
             Some err \<Rightarrow> (Some err, w)
           | None \<Rightarrow> (None, emit (MadeDir (BundledBinaryDir h)) (w\<lparr>cache := Some []\<rparr>)))"

definition GetBundledCNIPath :: "host \<Rightarrow> string" where
  "GetBundledCNIPath h = Join (GOOS h) [BundledBinaryDir h, ''cni'']"

definition MkdirAll_cni :: "host \<Rightarrow> 'a faults_scheme \<Rightarrow> world \<Rightarrow> error option \<times> world" where
  "MkdirAll_cni h f w =
     (if cni w \<noteq> None then (None, w)
      else case mkdir_err f (GetBundledCNIPath h) of
             Some err \<Rightarrow> (Some err, w)
           | None \<Rightarrow>
               (None, emit (MadeDir (GetBundledCNIPath h))
                  (w\<lparr>cache := Some (case cache w of None \<Rightarrow> [] | Some d \<Rightarrow> d), cni := Some []\<rparr>)))"

text \<open>\<open>os.Stat\<close> of a file of the cache directory.\<close>

definition stat_cache :: "world \<Rightarrow> string \<Rightarrow> regfile option" where
  "stat_cache w name = (case cache w of None \<Rightarrow> None | Some d \<Rightarrow> map_of d name)"

text \<open>
  \<open>os.OpenFile(path, os.O_CREATE|os.O_WRONLY, perm)\<close> followed by \<open>io.Copy\<close> into it. An
  existing file keeps its permission bits and is overwritten from its start without
  being truncated; a new file is created with \<open>perm\<close> (the process's umask is taken to
  leave the requested bits). \<open>dir\<close> is the directory listing the file is written to.
\<close>

definition overwrite :: "8 word list \<Rightarrow> 8 word list \<Rightarrow> 8 word list" where
  "overwrite new old = new @ drop (length new) old"

definition open_create ::
  "string \<Rightarrow> string \<Rightarrow> 32 word \<Rightarrow> (string \<times> regfile) list \<Rightarrow> world
     \<Rightarrow> (string \<times> regfile) list \<times> world"
where
  "open_create path name perm dir w =
     (case map_of dir name of
        Some old \<Rightarrow> (dir, w)
      | None \<Rightarrow> (dir @ [(name, \<lparr>mode = perm, bytes = []\<rparr>)], emit (Created path perm) w))"

definition io_Copy ::
  "'a faults_scheme \<Rightarrow> string \<Rightarrow> string \<Rightarrow> 8 word list \<Rightarrow> (string \<times> regfile) list \<Rightarrow> world
     \<Rightarrow> error option \<times> (string \<times> regfile) list \<times> world"
where
  "io_Copy f path name src dir w =
     (let (written, err) =
            (case copy_err f path of
               None \<Rightarrow> (src, None)
             | Some (n, e) \<Rightarrow> (take n src, Some e))
      in (err,
          map (\<lambda>(k, v). if k = name then (k, v\<lparr>bytes := overwrite written (bytes v)\<rparr>) else (k, v)) dir,
          emit (Wrote path (length written)) w))"

section \<open>Provisioning of the bundled binaries (container/utils.go and the containerd extractor)\<close>

text \<open>The octal constants \<open>0755\<close> and \<open>0111\<close>.\<close>

definition perm_0755 :: "32 word" where
  "perm_0755 = 493"

definition exec_bits :: "32 word" where
  "exec_bits = 73"

definition GetBundledContainerdPath :: "host \<Rightarrow> string" where
  "GetBundledContainerdPath h =
     (let exeName = (if GOOS h = Windows then ''containerd.exe'' else ''containerd'')
      in Join (GOOS h) [BundledBinaryDir h, exeName])"

definition GetBundledRuncPath :: "host \<Rightarrow> string" where
  "GetBundledRuncPath h =
     (let exeName = (if GOOS h = Windows then ''runc.exe'' else ''runc'')
      in Join (GOOS h) [BundledBinaryDir h, exeName])"

definition GetBundledHyperKitPath :: "host \<Rightarrow> string" where
  "GetBundledHyperKitPath h = Join (GOOS h) [BundledBinaryDir h, ''hyperkit'']"

text \<open>The names under which the three binaries are listed in the cache directory.\<close>

definition containerd_exe :: "host \<Rightarrow> string" where
  "containerd_exe h = (if GOOS h = Windows then ''containerd.exe'' else ''containerd'')"

definition runc_exe :: "host \<Rightarrow> string" where
  "runc_exe h = (if GOOS h = Windows then ''runc.exe'' else ''runc'')"

definition GetContainerdPath :: "host \<Rightarrow> 'a faults_scheme \<Rightarrow> world \<Rightarrow> string" where
  "GetContainerdPath h f w =
     (if stat_cache w (containerd_exe h) \<noteq> None then GetBundledContainerdPath h
      else case LookPath f ''containerd'' of Some path \<Rightarrow> path | None \<Rightarrow> '''')"

definition GetRuncPath :: "host \<Rightarrow> 'a faults_scheme \<Rightarrow> world \<Rightarrow> string" where
  "GetRuncPath h f w =
     (if stat_cache w (runc_exe h) \<noteq> None then GetBundledRuncPath h
      else case LookPath f ''runc'' of Some path \<Rightarrow> path | None \<Rightarrow> '''')"

definition standardPaths :: "string list" where
  "standardPaths =
     [''/opt/cni/bin'', ''/usr/local/opt/cni/bin'',
      ''C:'' @ [CHR 0x5C] @ ''Program Files'' @ [CHR 0x5C] @ ''cni'']"

definition GetCNIPath :: "host \<Rightarrow> 'a faults_scheme \<Rightarrow> world \<Rightarrow> string" where
  "GetCNIPath h f w =
     (if (case cni w of
            None \<Rightarrow> False
          | Some entries \<Rightarrow> readdir_err f (GetBundledCNIPath h) = None \<and> entries \<noteq> [])
      then GetBundledCNIPath h
      else case filter (stat_ok f) standardPaths of path # _ \<Rightarrow> path | [] \<Rightarrow> '''')"

definition IsContainerdInstalled :: "host \<Rightarrow> 'a faults_scheme \<Rightarrow> world \<Rightarrow> bool" where
  "IsContainerdInstalled h f w = (GetContainerdPath h f w \<noteq> '''')"

definition IsRuncInstalled :: "host \<Rightarrow> 'a faults_scheme \<Rightarrow> world \<Rightarrow> bool" where
  "IsRuncInstalled h f w = (GetRuncPath h f w \<noteq> '''')"

definition HasCNIPlugins :: "host \<Rightarrow> 'a faults_scheme \<Rightarrow> world \<Rightarrow> bool" where
  "HasCNIPlugins h f w = (GetCNIPath h f w \<noteq> '''')"

text \<open>
  The tail shared by the three single-binary extractors: \<open>os.Open\<close> of the source,
  \<open>os.OpenFile\<close> of the destination with \<open>O_CREATE|O_WRONLY\<close> and \<open>0755\<close>, \<open>io.Copy\<close>.
  \<open>copy_msg\<close> is the message of the extractor for a failed copy.
\<close>

definition copy_to_cache ::
  "'a faults_scheme \<Rightarrow> string \<Rightarrow> string \<Rightarrow> string \<Rightarrow> regfile \<Rightarrow> string \<Rightarrow> world
     \<Rightarrow> error option \<times> world"
where
  "copy_to_cache f sourcePath bundledPath exeName src copy_msg w =
     (case open_err f sourcePath of
        Some e \<Rightarrow> (Some (Wrap e ''failed to open source binary''), w)
      | None \<Rightarrow>
         (case create_err f bundledPath of
            Some e \<Rightarrow> (Some (Wrap e ''failed to create destination binary file''), w)
          | None \<Rightarrow>
             (case cache w of
                None \<Rightarrow>
                  (Some (Wrap (stat_error bundledPath) ''failed to create destination binary file''), w)
              | Some d \<Rightarrow>
                  (let (d1, w1) = open_create bundledPath exeName perm_0755 d w;
                       (err, d2, w2) = io_Copy f bundledPath exeName (bytes src) d1 w1;
                       w3 = w2\<lparr>cache := Some d2\<rparr>
                   in case err of
                        Some e \<Rightarrow> (Some (Wrap e copy_msg), w3)
                      | None \<Rightarrow> (None, w3)))))"

text \<open>The \<open>binaryPaths\<close> table of the containerd extractor, joined to the executable's directory.\<close>

fun binaryPaths :: "goos \<Rightarrow> string" where
  "binaryPaths Linux = ''binaries/linux/containerd''"
| "binaryPaths Windows = ''binaries/windows/containerd.exe''"
| "binaryPaths Darwin = ''binaries/darwin/containerd''"

text \<open>
  \<open>FileInfo.Mode()\<close> of a regular file as \<open>os.Stat\<close> reports it: the permission bits of
  the file, except on Windows, where a file has a read-only attribute instead of
  permission bits and the report is \<open>0444\<close> for a read-only file and \<open>0666\<close> for any other;
  a file is read-only there when it was created without the owner's write bit \<open>0200\<close>.
  \<open>is_executable\<close> is the guard \<open>err == nil && info.Mode()&0111 != 0\<close> of the extractors.
\<close>

definition Mode :: "goos \<Rightarrow> regfile \<Rightarrow> 32 word" where
  "Mode g i = (if g = Windows then (if mode i AND 128 = 0 then 292 else 438) else mode i)"

definition is_executable :: "goos \<Rightarrow> regfile option \<Rightarrow> bool" where
  "is_executable g info = (case info of None \<Rightarrow> False | Some i \<Rightarrow> Mode g i AND exec_bits \<noteq> 0)"

definition extractBundledContainerd :: "host \<Rightarrow> 'a faults_scheme \<Rightarrow> world \<Rightarrow> error option \<times> world" where
  "extractBundledContainerd h f w =
     (case MkdirAll_cache h f w of
        (Some e, w1) \<Rightarrow> (Some (Wrap e ''failed to create bundled binary directory''), w1)
      | (None, w1) \<Rightarrow>
         (let bundledPath = GetBundledContainerdPath h in
          if is_executable (GOOS h) (stat_cache w1 (containerd_exe h)) then (None, w1)
          else case Executable h of
                 Inl e \<Rightarrow> (Some (Wrap e ''failed to get executable path''), w1)
               | Inr executablePath \<Rightarrow>
                  (let executableDir = Dir (GOOS h) executablePath;
                       sourcePath = Join (GOOS h) [executableDir, binaryPaths (GOOS h)]
                   in case map_of (bundled w1) sourcePath of
                        None \<Rightarrow>
                          (Some (''bundled containerd binary not found at '' @ sourcePath @ '': ''
                                 @ stat_error sourcePath), w1)
                      | Some src \<Rightarrow>
                          copy_to_cache f sourcePath bundledPath (containerd_exe h) src
                            ''failed to extract binary'' w1)))"

definition EnsureBundledContainerdExtracted :: "host \<Rightarrow> 'a faults_scheme \<Rightarrow> world \<Rightarrow> error option \<times> world" where
  "EnsureBundledContainerdExtracted h f w = extractBundledContainerd h f w"

definition EnsureBundledRuncExtracted :: "host \<Rightarrow> 'a faults_scheme \<Rightarrow> world \<Rightarrow> error option \<times> world" where
  "EnsureBundledRuncExtracted h f w =
     (case MkdirAll_cache h f w of
        (Some e, w1) \<Rightarrow> (Some (Wrap e ''failed to create bundled binary directory''), w1)
      | (None, w1) \<Rightarrow>
         (let bundledPath = GetBundledRuncPath h in
          if is_executable (GOOS h) (stat_cache w1 (runc_exe h)) then (None, w1)
          else case Executable h of
                 Inl e \<Rightarrow> (Some (Wrap e ''failed to get executable path''), w1)
               | Inr executablePath \<Rightarrow>
                  (let executableDir = Dir (GOOS h) executablePath;
                       sourcePath =
                         (if GOOS h = Windows
                          then Join (GOOS h) [executableDir, ''binaries'', ''windows'', ''runc.exe'']
                          else Join (GOOS h) [executableDir, ''binaries'', goos_name (GOOS h), ''runc''])
                   in case map_of (bundled w1) sourcePath of
                        None \<Rightarrow>
                          (Some (''bundled runc binary not found at '' @ sourcePath @ '': ''
                                 @ stat_error sourcePath), w1)
                      | Some src \<Rightarrow>
                          copy_to_cache f sourcePath bundledPath (runc_exe h) src
                            ''failed to copy runc binary'' w1)))"

definition EnsureBundledHyperKitExtracted :: "host \<Rightarrow> 'a faults_scheme \<Rightarrow> world \<Rightarrow> error option \<times> world" where
  "EnsureBundledHyperKitExtracted h f w =
     (case MkdirAll_cache h f w of
        (Some e, w1) \<Rightarrow> (Some (Wrap e ''failed to create bundled binary directory''), w1)
      | (None, w1) \<Rightarrow>
         (let bundledPath = GetBundledHyperKitPath h in
          if is_executable (GOOS h) (stat_cache w1 ''hyperkit'') then (None, w1)
          else case Executable h of
                 Inl e \<Rightarrow> (Some (Wrap e ''failed to get executable path''), w1)
               | Inr executablePath \<Rightarrow>
                  (let executableDir = Dir (GOOS h) executablePath;
                       sourcePath =
                         Join (GOOS h) [executableDir, ''binaries'', ''darwin'', ''linuxkit'', ''hyperkit'']
                   in case map_of (bundled w1) sourcePath of
                        None \<Rightarrow>
                          (Some (''bundled HyperKit binary not found at '' @ sourcePath @ '': ''
                                 @ stat_error sourcePath), w1)
                      | Some src \<Rightarrow>
                          copy_to_cache f sourcePath bundledPath ''hyperkit'' src
                            ''failed to extract binary'' w1)))"

text \<open>The plugin extractor's loop over the entries of the shipped directory:
  \<open>copy_plugin\<close> is one pass through its body (a directory entry is skipped), and
  \<open>copy_plugins\<close> the loop, which returns at the first error.\<close>

definition copy_plugin ::
  "host \<Rightarrow> 'a faults_scheme \<Rightarrow> string \<Rightarrow> string \<Rightarrow> string \<times> bool \<times> 8 word list
     \<Rightarrow> (string \<times> regfile) list \<Rightarrow> world \<Rightarrow> error option \<times> (string \<times> regfile) list \<times> world"
where
  "copy_plugin h f sourceDir cniDir entry d w =
     (case entry of (name, isDir, src) \<Rightarrow>
        if isDir then (None, d, w)
        else
          (let sourcePath = Join (GOOS h) [sourceDir, name];
               destPath = Join (GOOS h) [cniDir, name]
           in case open_err f sourcePath of
                Some e \<Rightarrow> (Some (Wrap e (''failed to open source file '' @ sourcePath)), d, w)
              | None \<Rightarrow>
                 (case create_err f destPath of
                    Some e \<Rightarrow> (Some (Wrap e (''failed to create destination file '' @ destPath)), d, w)
                  | None \<Rightarrow>
                     (let (d1, w1) = open_create destPath name perm_0755 d w;
                          (err, d2, w2) = io_Copy f destPath name src d1 w1
                      in case err of
                           Some e \<Rightarrow> (Some (Wrap e (''failed to copy plugin '' @ name)), d2, w2)
                         | None \<Rightarrow> (None, d2, w2)))))"

fun copy_plugins ::
  "host \<Rightarrow> 'a faults_scheme \<Rightarrow> string \<Rightarrow> string \<Rightarrow> (string \<times> bool \<times> 8 word list) list
     \<Rightarrow> (string \<times> regfile) list \<Rightarrow> world \<Rightarrow> error option \<times> (string \<times> regfile) list \<times> world"
where
  "copy_plugins h f sourceDir cniDir [] d w = (None, d, w)"
| "copy_plugins h f sourceDir cniDir (entry # entries) d w =
     (case copy_plugin h f sourceDir cniDir entry d w of
        (Some e, d2, w2) \<Rightarrow> (Some e, d2, w2)
      | (None, d2, w2) \<Rightarrow> copy_plugins h f sourceDir cniDir entries d2 w2)"

definition EnsureBundledCNIPluginsExtracted :: "host \<Rightarrow> 'a faults_scheme \<Rightarrow> world \<Rightarrow> error option \<times> world" where
  "EnsureBundledCNIPluginsExtracted h f w =
     (let cniDir = GetBundledCNIPath h in
      case MkdirAll_cni h f w of
        (Some e, w1) \<Rightarrow> (Some (Wrap e ''failed to create bundled CNI directory''), w1)
      | (None, w1) \<Rightarrow>
         (if readdir_err f cniDir = None \<and> (case cni w1 of None \<Rightarrow> False | Some d \<Rightarrow> d \<noteq> [])
          then (None, w1)
          else case Executable h of
                 Inl e \<Rightarrow> (Some (Wrap e ''failed to get executable path''), w1)
               | Inr executablePath \<Rightarrow>
                  (let executableDir = Dir (GOOS h) executablePath;
                       sourceDir =
                         (if GOOS h = Windows
                          then Join (GOOS h) [executableDir, ''binaries'', ''windows'', ''cni'']
                          else Join (GOOS h) [executableDir, ''binaries'', goos_name (GOOS h), ''cni''])
                   in case bundled_cni w1 of
                        None \<Rightarrow>
                          (Some (''bundled CNI plugins directory not found at '' @ sourceDir @ '': ''
                                 @ stat_error sourceDir), w1)
                      | Some entries \<Rightarrow>
                         (case readdir_err f sourceDir of
                            Some e \<Rightarrow> (Some (Wrap e ''failed to read CNI plugins directory''), w1)
                          | None \<Rightarrow>
                             (case copy_plugins h f sourceDir cniDir entries
                                     (case cni w1 of None \<Rightarrow> [] | Some d \<Rightarrow> d) w1 of
                                (err, d2, w2) \<Rightarrow> (err, w2\<lparr>cni := Some d2\<rparr>))))))"

definition EnsureAllBundledComponentsExtracted :: "host \<Rightarrow> 'a faults_scheme \<Rightarrow> world \<Rightarrow> error option \<times> world" where
  "EnsureAllBundledComponentsExtracted h f w =
     (case EnsureBundledContainerdExtracted h f w of
        (Some e, w1) \<Rightarrow> (Some (Wrap e ''failed to extract bundled containerd''), w1)
      | (None, w1) \<Rightarrow>
     (case EnsureBundledRuncExtracted h f w1 of
        (Some e, w2) \<Rightarrow> (Some (Wrap e ''failed to extract bundled runc''), w2)
      | (None, w2) \<Rightarrow>
     (case EnsureBundledCNIPluginsExtracted h f w2 of
        (Some e, w3) \<Rightarrow> (Some (Wrap e ''failed to extract bundled CNI plugins''), w3)
      | (None, w3) \<Rightarrow>
         (if GOOS h = Darwin then
            (case EnsureBundledHyperKitExtracted h f w3 of
               (Some e, w4) \<Rightarrow> (Some (Wrap e ''failed to extract bundled HyperKit''), w4)
             | (None, w4) \<Rightarrow> (None, w4))
          else (None, w3)))))"

section \<open>The server (container/server.go) and the WSL2 backend\<close>

record ServerConfig =
  Root :: string
  State :: string
  Address :: string
  Config :: string
  LogLevel :: string
  LogFile :: string

record LinuxKitConfig =
  Memory :: int
  CPUs :: int
  DiskSize :: int
  Name :: string
  KernelPath :: string
  InitrdPath :: string
  StateDir :: string

record WSL2Config =
  Enabled :: bool
  Distribution :: string
  MountDir :: string
  Memory :: int
  CPUs :: int
  Swap :: int
  DiskGB :: int
  Kernel :: string

text \<open>An \<open>exec.Cmd\<close> as \<open>exec.CommandContext\<close> makes it for a program given by a path:
  \<open>Args\<close> starts with the program. \<open>Process\<close> says whether its \<open>Process\<close> field is set,
  which \<open>cmd.Start()\<close> does when it succeeds.\<close>

record Cmd =
  Path :: string
  Args :: "string list"
  Process :: bool

text \<open>The \<open>Server\<close> struct without its mutex and its unused \<open>stopSignal\<close> channel:
  calls are taken one at a time, as the mutex makes them.\<close>

record Server =
  config :: ServerConfig
  cmd :: "Cmd option"
  running :: bool
  linuxKitConfig :: LinuxKitConfig
  wsl2Config :: WSL2Config
  vmRunning :: bool
  wslRunning :: bool

definition GetFunSocketPath :: "host \<Rightarrow> string" where
  "GetFunSocketPath h =
     (if GOOS h = Windows then pipe_prefix @ ''fun-containerd''
      else Join (GOOS h) [homeDir h, ''.fun'', ''containerd'', ''containerd.sock''])"

definition DefaultLinuxKitConfig :: "host \<Rightarrow> LinuxKitConfig" where
  "DefaultLinuxKitConfig h =
     (let linuxKitDir = Join (GOOS h) [homeDir h, ''.fun'', ''linuxkit''] in
      \<lparr>LinuxKitConfig.Memory = 1024, CPUs = 2, DiskSize = 10, Name = ''fun-containerd-vm'',
       KernelPath = Join (GOOS h) [linuxKitDir, ''kernel''],
       InitrdPath = Join (GOOS h) [linuxKitDir, ''initrd.img''],
       StateDir = Join (GOOS h) [linuxKitDir, ''state'']\<rparr>)"

definition DefaultWSL2Config :: "host \<Rightarrow> WSL2Config" where
  "DefaultWSL2Config h =
     \<lparr>Enabled = True, Distribution = ''wsl-fun'',
      MountDir = Join (GOOS h) [homeDir h, ''.fun'', ''wsl-mounts''],
      WSL2Config.Memory = 4096, CPUs = 2, Swap = 2048, DiskGB = 10, Kernel = ''''\<rparr>"

definition NewServer :: "host \<Rightarrow> ServerConfig \<Rightarrow> Server" where
  "NewServer h c =
     (let c1 = (if Root c = '''' then c\<lparr>Root := Join (GOOS h) [homeDir h, ''.fun'', ''containerd'', ''root'']\<rparr> else c);
          c2 = (if State c1 = '''' then c1\<lparr>State := Join (GOOS h) [homeDir h, ''.fun'', ''containerd'', ''state'']\<rparr> else c1);
          c3 = (if Address c2 = '''' then c2\<lparr>Address := GetFunSocketPath h\<rparr> else c2);
          c4 = (if LogLevel c3 = '''' then c3\<lparr>LogLevel := ''info''\<rparr> else c3);
          c5 = (if LogFile c4 = '''' then c4\<lparr>LogFile := Join (GOOS h) [homeDir h, ''.fun'', ''containerd'', ''containerd.log'']\<rparr> else c4)
      in \<lparr>config = c5, cmd = None, running = False,
          linuxKitConfig = DefaultLinuxKitConfig h, wsl2Config = DefaultWSL2Config h,
          vmRunning = False, wslRunning = False\<rparr>)"

definition IsRunningOnMacOS :: "host \<Rightarrow> bool" where
  "IsRunningOnMacOS h = (GOOS h = Darwin)"

definition IsRunningOnWindows :: "host \<Rightarrow> bool" where
  "IsRunningOnWindows h = (env_OS h = ''Windows_NT'')"

text \<open>
  The answers of the environment during one \<open>Start\<close>, beyond those of the file
  operations. Each call site of \<open>IsWSL2Available\<close> runs the probe command again and has
  an answer of its own (in \<open>Server.Start\<close>, in \<open>StartWSL2Environment\<close>, in
  \<open>GetWindowsContainerdSocketPath\<close>). The results of \<open>StartLinuxKitVM\<close>,
  \<open>InstallWSL2Components\<close>, \<open>mountWSL2Directory\<close> and \<open>EnsureContainerdInWSL\<close> are inputs,
  as are those of the three \<open>cmd.Start()\<close> calls. \<open>socket_stat\<close> and \<open>tick_first\<close> are the
  environment of \<open>WaitForSocket\<close>.
\<close>

record start_env = faults +
  StartLinuxKitVM_err :: "error option"
  IsWSL2Available_Start :: bool
  IsWSL2Available_Env :: bool
  IsWSL2Available_Sock :: bool
  IsWSL2DistributionAvailable_Env :: bool
  InstallWSL2Components_err :: "error option"
  wsl_start_err :: "error option"
  mountWSL2Directory_err :: "error option"
  wsl_containerd_start_err :: "error option"
  EnsureContainerdInWSL_err :: "error option"
  cmd_start_err :: "error option"
  socket_stat :: "duration \<Rightarrow> bool"
  tick_first :: bool

definition wsl2_not_installed :: error where
  "wsl2_not_installed =
     ''WSL2 is not installed. Please install WSL2 from Microsoft Store or run 'wsl --install' in an elevated command prompt''"

definition StartWSL2Environment :: "start_env \<Rightarrow> WSL2Config \<Rightarrow> world \<Rightarrow> error option \<times> world" where
  "StartWSL2Environment e c w =
     (if \<not> IsWSL2Available_Env e then (Some wsl2_not_installed, w)
      else case (if \<not> IsWSL2DistributionAvailable_Env e then InstallWSL2Components_err e else None) of
        Some err \<Rightarrow> (Some (Wrap err ''failed to install WSL components''), w)
      | None \<Rightarrow>
         (case wsl_start_err e of
            Some err \<Rightarrow> (Some (Wrap err ''failed to start WSL distribution''), w)
          | None \<Rightarrow>
             (let w1 = emit (Sleep (5 * Second))
                         (emit (SpawnWSL [''--distribution'', Distribution c, ''--'']) w)
              in case mountWSL2Directory_err e of
                   Some err \<Rightarrow> (Some (Wrap err ''failed to mount host directory in WSL''), w1)
                 | None \<Rightarrow>
                    (case wsl_containerd_start_err e of
                       Some err \<Rightarrow> (Some (Wrap err ''failed to start containerd in WSL''), w1)
                     | None \<Rightarrow>
                         (None,
                          emit (Sleep (5 * Second))
                            (emit (SpawnWSL
                                     [''--distribution'', Distribution c, ''--'', ''containerd'',
                                      ''--address'', ''/run/containerd/containerd.sock'']) w1))))))"

definition GetWindowsContainerdSocketPath :: "start_env \<Rightarrow> WSL2Config \<Rightarrow> string" where
  "GetWindowsContainerdSocketPath e c =
     (if Enabled c \<and> IsWSL2Available_Sock e
      then ''wsl://'' @ Distribution c @ ''/run/containerd/containerd.sock''
      else pipe_prefix @ ''fun-containerd'')"

subsection \<open>\<open>Server.Start\<close>\<close>

text \<open>The check of the components after a failed extraction.\<close>

definition check_components :: "host \<Rightarrow> start_env \<Rightarrow> error option \<Rightarrow> world \<Rightarrow> error option \<times> world" where
  "check_components h e extract_err w =
     (if extract_err \<noteq> None then
        (if \<not> IsContainerdInstalled h e w
         then (Some ''containerd is not available and failed to extract bundled binary'', w)
         else if \<not> IsRuncInstalled h e w
         then (Some ''runc is not available and failed to extract bundled binary'', w)
         else if \<not> HasCNIPlugins h e w
         then (None, emit (Log ''Warning: CNI plugins are not available, networking functionality may be limited'') w)
         else (None, w))
      else (None, w))"

text \<open>The four \<open>os.MkdirAll\<close> calls for the root, state, socket and log directories.\<close>

definition ensure_directories :: "host \<Rightarrow> start_env \<Rightarrow> ServerConfig \<Rightarrow> error option" where
  "ensure_directories h e c =
     (case mkdir_err e (Root c) of
        Some err \<Rightarrow> Some (Wrap err ''failed to create root directory'')
      | None \<Rightarrow>
     (case mkdir_err e (State c) of
        Some err \<Rightarrow> Some (Wrap err ''failed to create state directory'')
      | None \<Rightarrow>
     (case (if \<not> HasPrefix (Address c) pipe_prefix
            then mkdir_err e (Dir (GOOS h) (Address c)) else None) of
        Some err \<Rightarrow> Some (Wrap err ''failed to create socket directory'')
      | None \<Rightarrow>
     (case mkdir_err e (Dir (GOOS h) (LogFile c)) of
        Some err \<Rightarrow> Some (Wrap err ''failed to create log directory'')
      | None \<Rightarrow> None))))"

text \<open>The argument vector of the engine, with the \<open>os.MkdirAll\<close> of the CNI
  configuration directory that can fail on the way.\<close>

definition containerd_args ::
  "host \<Rightarrow> start_env \<Rightarrow> ServerConfig \<Rightarrow> world \<Rightarrow> string \<Rightarrow> error + string list"
where
  "containerd_args h e c w runcPath =
     (let args = [''--root'', Root c, ''--state'', State c, ''--address'', Address c,
                  ''--log-level'', LogLevel c];
          args1 = (if IsRuncInstalled h e w \<and> Contains runcPath (BundledBinaryDir h)
                   then args @ [''--runtime-type'', ''io.containerd.runc.v2'',
                                ''--runtime-engine'', runcPath]
                   else args);
          cniPath = GetCNIPath h e w;
          cniConfDir = Join (GOOS h) [Root c, ''cni'', ''conf'']
      in case (if cniPath \<noteq> '''' \<and> Contains cniPath (BundledBinaryDir h)
               then (case mkdir_err e cniConfDir of
                       Some err \<Rightarrow> Inl (Wrap err ''failed to create CNI configuration directory'')
                     | None \<Rightarrow> Inr (args1 @ [''--cni-bin-dir'', cniPath, ''--cni-conf-dir'', cniConfDir]))
               else Inr args1) of
           Inl err \<Rightarrow> Inl err
         | Inr args2 \<Rightarrow> Inr (if Config c \<noteq> '''' then args2 @ [''--config'', Config c] else args2))"

text \<open>The spawn of the engine and the wait for its socket: from
  \<open>exec.CommandContext\<close> to the end of \<open>Start\<close>.\<close>

definition spawn_and_wait ::
  "start_env \<Rightarrow> Server \<Rightarrow> world \<Rightarrow> string \<Rightarrow> string list \<Rightarrow> error option \<times> Server \<times> world"
where
  "spawn_and_wait e s w containerdPath args =
     (let s1 = s\<lparr>cmd := Some \<lparr>Path = containerdPath, Args = containerdPath # args, Process = False\<rparr>\<rparr> in
      case create_err e (LogFile (config s)) of
        Some err \<Rightarrow> (Some (Wrap err ''failed to open log file''), s1, w)
      | None \<Rightarrow>
         (case cmd_start_err e of
            Some err \<Rightarrow> (Some (Wrap err ''failed to start containerd''), s1, emit CloseLogFile w)
          | None \<Rightarrow>
             (let s2 = s\<lparr>cmd := Some \<lparr>Path = containerdPath, Args = containerdPath # args, Process = True\<rparr>\<rparr>;
                  w1 = emit (SpawnEngine containerdPath args) w
              in case WaitForSocket (socket_stat e) (tick_first e) (Address (config s)) (30 * Second) of
                   (Some err, d) \<Rightarrow>
                     (Some (Wrap err ''failed waiting for containerd to start''), s2,
                      emit CloseLogFile (emit Kill (emit (Waited d) w1)))
                 | (None, d) \<Rightarrow> (None, s2\<lparr>running := True\<rparr>, emit (Waited d) w1))))"

text \<open>The native start-up: the part of \<open>Start\<close> after the platform branches.\<close>

definition startNative :: "host \<Rightarrow> start_env \<Rightarrow> Server \<Rightarrow> world \<Rightarrow> error option \<times> Server \<times> world" where
  "startNative h e s w =
     (case EnsureAllBundledComponentsExtracted h e w of
        (extract_err, w1) \<Rightarrow>
     (case check_components h e extract_err w1 of
        (Some err, w2) \<Rightarrow> (Some err, s, w2)
      | (None, w2) \<Rightarrow>
         (let containerdPath = GetContainerdPath h e w2;
              runcPath = GetRuncPath h e w2
          in if containerdPath = '''' then (Some ''containerd is not available'', s, w2)
             else if runcPath = '''' then (Some ''runc is not available'', s, w2)
             else case ensure_directories h e (config s) of
                    Some err \<Rightarrow> (Some err, s, w2)
                  | None \<Rightarrow>
                     (case containerd_args h e (config s) w2 runcPath of
                        Inl err \<Rightarrow> (Some err, s, w2)
                      | Inr args \<Rightarrow> spawn_and_wait e s w2 containerdPath args))))"

definition wsl2_unavailable_notice :: string where
  "wsl2_unavailable_notice =
     ''WSL2 is not available but was requested for Linux containers. Please install WSL2 from Microsoft Store or run 'wsl --install' in an elevated command prompt. Falling back to native Windows containers which may not support all Linux container features.''"

definition wsl2_failed_notice :: "error \<Rightarrow> string" where
  "wsl2_failed_notice err =
     ''Failed to start WSL2 environment: '' @ err @ ''. Falling back to native Windows containers.''"

definition Server_Start :: "host \<Rightarrow> start_env \<Rightarrow> Server \<Rightarrow> world \<Rightarrow> error option \<times> Server \<times> world" where
  "Server_Start h e s w =
     (if running s then (None, s, w)
      else if IsRunningOnMacOS h then
        (let w1 = emit (Log ''Starting LinuxKit VM for containerd on macOS'') w in
         case StartLinuxKitVM_err e of
           Some err \<Rightarrow> (Some (Wrap err ''failed to start LinuxKit VM''), s, w1)
         | None \<Rightarrow>
             (None, s\<lparr>vmRunning := True, running := True\<rparr>, emit (Sleep (10 * Second)) w1))
      else if IsRunningOnWindows h then
        (if Enabled (wsl2Config s) \<and> IsWSL2Available_Start e then
           (case StartWSL2Environment e (wsl2Config s)
                   (emit (Log ''Starting WSL2 environment for containerd on Windows'') w) of
              (Some err, w1) \<Rightarrow>
                startNative h e s
                  (emit (Log ''Using native Windows container runtime'')
                     (emit (Log (wsl2_failed_notice err)) w1))
            | (None, w1) \<Rightarrow>
               (let s1 = s\<lparr>wslRunning := True\<rparr> in
                case EnsureContainerdInWSL_err e of
                  Some err \<Rightarrow>
                    (Some (Wrap err ''failed to ensure containerd is installed in WSL2''), s1, w1)
                | None \<Rightarrow>
                    (None,
                     s1\<lparr>config := (config s1)\<lparr>Address := GetWindowsContainerdSocketPath e (wsl2Config s1)\<rparr>,
                        running := True\<rparr>,
                     w1)))
         else if Enabled (wsl2Config s) then
           startNative h e s
             (emit (Log ''Using native Windows container runtime'')
                (emit (Log wsl2_unavailable_notice) w))
         else startNative h e s (emit (Log ''Using native Windows container runtime'') w))
      else startNative h e s w)"

subsection \<open>\<open>Server.Stop\<close>, \<open>IsRunning\<close>, \<open>GetSocketAddress\<close>\<close>

text \<open>
  The case the \<open>select\<close> of \<open>Stop\<close> takes: the 30 second timer, the exit of the process
  reported by the background \<open>cmd.Wait()\<close> with its error, or the caller's context.
  The other answers of the environment during one \<open>Stop\<close>: the results of
  \<open>StopLinuxKitVM\<close>, of the probe and the \<open>wsl.exe --terminate\<close> command (output and error)
  of \<open>StopWSL2Environment\<close>, of \<open>Process.Signal(os.Interrupt)\<close>, of \<open>Process.Kill()\<close>, and
  of the \<open>Close\<close> of the runtime client.
\<close>

datatype select_outcome = Timeout | Exited "error option" | CtxDone

record stop_env =
  StopLinuxKitVM_err :: "error option"
  IsWSL2DistributionAvailable_Stop :: bool
  wsl_terminate :: "string \<times> error option"
  interrupt_err :: "error option"
  outcome :: select_outcome
  kill_err :: "error option"
  client_Close_err :: "error option"

definition StopWSL2Environment :: "stop_env \<Rightarrow> WSL2Config \<Rightarrow> world \<Rightarrow> error option \<times> world" where
  "StopWSL2Environment e c w =
     (if \<not> IsWSL2DistributionAvailable_Stop e then (None, w)
      else case wsl_terminate e of
             (output, Some err) \<Rightarrow>
               (Some (Wrap err (''failed to terminate WSL distribution: '' @ output)), w)
           | (output, None) \<Rightarrow> (None, emit (Terminate (Distribution c)) w))"

definition Server_Stop :: "host \<Rightarrow> stop_env \<Rightarrow> Server \<Rightarrow> world \<Rightarrow> error option \<times> Server \<times> world" where
  "Server_Stop h e s w =
     (if IsRunningOnMacOS h \<and> vmRunning s then
        (case StopLinuxKitVM_err e of
           Some err \<Rightarrow> (Some (Wrap err ''failed to stop LinuxKit VM''), s, w)
         | None \<Rightarrow> (None, s\<lparr>vmRunning := False, running := False\<rparr>, w))
      else if IsRunningOnWindows h \<and> wslRunning s then
        (case StopWSL2Environment e (wsl2Config s) w of
           (Some err, w1) \<Rightarrow> (Some (Wrap err ''failed to stop WSL2 environment''), s, w1)
         | (None, w1) \<Rightarrow> (None, s\<lparr>wslRunning := False, running := False\<rparr>, w1))
      else if \<not> running s \<or> (case cmd s of None \<Rightarrow> True | Some c \<Rightarrow> \<not> Process c) then (None, s, w)
      else case interrupt_err e of
             Some err \<Rightarrow> (Some (Wrap err ''failed to send interrupt signal''), s, w)
           | None \<Rightarrow>
              (let w1 = emit Interrupt w in
               case outcome e of
                 Timeout \<Rightarrow>
                   (case kill_err e of
                      Some err \<Rightarrow>
                        (Some (Wrap err ''failed to kill containerd process''), s,
                         emit (Waited (30 * Second)) w1)
                    | None \<Rightarrow>
                        (Some ''containerd did not exit gracefully, killed'', s,
                         emit Kill (emit (Waited (30 * Second)) w1)))
               | Exited err \<Rightarrow>
                   (let s1 = s\<lparr>running := False\<rparr> in
                    case err of
                      Some err' \<Rightarrow> (Some (Wrap err' ''containerd exited with error''), s1, w1)
                    | None \<Rightarrow> (None, s1, w1))
               | CtxDone \<Rightarrow>
                   (case kill_err e of
                      Some err \<Rightarrow>
                        (Some (Wrap err ''failed to kill containerd process on context done''), s, w1)
                    | None \<Rightarrow>
                        (Some ''containerd killed due to context cancellation'', s, emit Kill w1))))"

definition IsRunning :: "Server \<Rightarrow> bool" where
  "IsRunning s = running s"

definition GetSocketAddress :: "Server \<Rightarrow> string" where
  "GetSocketAddress s = Address (config s)"

section \<open>The manager\<close>

record ManagerConfig =
  RunAs :: string
  ServerConfig :: ServerConfig
  ClientSocket :: string
  Namespace :: string

text \<open>The \<open>Client\<close> struct: whether its containerd client is set, and its namespace.\<close>

record Client =
  client :: bool
  namespace :: string

record Manager =
  config :: ManagerConfig
  server :: "Server option"
  client :: "Client option"
  useEmbedded :: bool

definition NewManager :: "ManagerConfig \<Rightarrow> Manager" where
  "NewManager c =
     (let c1 = (if RunAs c = '''' then c\<lparr>RunAs := ''client''\<rparr> else c);
          c2 = (if Namespace c1 = '''' then c1\<lparr>Namespace := ''fun''\<rparr> else c1);
          c3 = (if RunAs c2 = ''both'' \<and> Address (ServerConfig c2) = ''''
                then c2\<lparr>ServerConfig := (ServerConfig c2)\<lparr>Address := ClientSocket c2\<rparr>\<rparr>
                else c2)
      in \<lparr>config = c3, server = None, client = None,
          useEmbedded = (RunAs c3 = ''server'' \<or> RunAs c3 = ''both'')\<rparr>)"

definition Client_Close :: "stop_env \<Rightarrow> Client \<Rightarrow> error option" where
  "Client_Close e c = (if Client.client c then client_Close_err e else None)"

definition Manager_Stop :: "host \<Rightarrow> stop_env \<Rightarrow> Manager \<Rightarrow> world \<Rightarrow> error option \<times> Manager \<times> world" where
  "Manager_Stop h e m w =
     (let (clientErr, m1) =
            (case Manager.client m of
               Some c \<Rightarrow> (Client_Close e c, m\<lparr>Manager.client := None\<rparr>)
             | None \<Rightarrow> (None, m));
          (serverErr, m2, w1) =
            (case server m1 of
               Some s \<Rightarrow> (fst (Server_Stop h e s w), m1\<lparr>server := None\<rparr>, snd (snd (Server_Stop h e s w)))
             | None \<Rightarrow> (None, m1, w))
      in case clientErr of
           Some err \<Rightarrow> (Some (Wrap err ''failed to close containerd client''), m2, w1)
         | None \<Rightarrow>
            (case serverErr of
               Some err \<Rightarrow> (Some (Wrap err ''failed to stop containerd server''), m2, w1)
             | None \<Rightarrow> (None, m2, w1)))"

section \<open>Observations on traces and states\<close>

text \<open>
  \<open>counts P w\<close> is the number of events of the trace that satisfy \<open>P\<close>: the engine
  subprocesses spawned, the kills sent, the writes into a given file. The events about
  the engine subprocess are those of \<open>engine_event\<close>; \<open>about_engine P\<close> says that \<open>P\<close> holds
  of such events only. \<open>same_files\<close> compares two worlds up to their traces.
  \<open>never_executable\<close> says of a file of the cache that the guard of its extractor cannot
  hold of it, now or after a copy into it: the host is Windows, or the file exists
  without any executable bit. \<open>native_world\<close> is the world in which the native start-up
  reaches its spawn.
\<close>

definition counts :: "(event \<Rightarrow> bool) \<Rightarrow> world \<Rightarrow> nat" where
  "counts P w = length (filter P (trace w))"

fun is_engine_spawn :: "event \<Rightarrow> bool" where
  "is_engine_spawn (SpawnEngine p a) = True"
| "is_engine_spawn ev = False"

definition engine_spawns :: "world \<Rightarrow> nat" where
  "engine_spawns w = counts is_engine_spawn w"

definition kills :: "world \<Rightarrow> nat" where
  "kills w = counts (\<lambda>ev. ev = Kill) w"

fun engine_event :: "event \<Rightarrow> bool" where
  "engine_event (SpawnEngine p a) = True"
| "engine_event (Waited d) = True"
| "engine_event Interrupt = True"
| "engine_event Kill = True"
| "engine_event CloseLogFile = True"
| "engine_event ev = False"

definition about_engine :: "(event \<Rightarrow> bool) \<Rightarrow> bool" where
  "about_engine P = (\<forall>ev. P ev \<longrightarrow> engine_event ev)"

fun is_write_to :: "string \<Rightarrow> event \<Rightarrow> bool" where
  "is_write_to path (Wrote p n) = (p = path)"
| "is_write_to path ev = False"

definition writes_to :: "string \<Rightarrow> world \<Rightarrow> nat" where
  "writes_to path w = length (filter (is_write_to path) (trace w))"

definition same_files :: "world \<Rightarrow> world \<Rightarrow> bool" where
  "same_files a b =
     (cache a = cache b \<and> cni a = cni b \<and> bundled a = bundled b \<and> bundled_cni a = bundled_cni b)"

definition never_executable :: "goos \<Rightarrow> world \<Rightarrow> string \<Rightarrow> bool" where
  "never_executable g w exe =
     (g = Windows \<or> (\<exists>i. stat_cache w exe = Some i \<and> mode i AND exec_bits = 0))"

definition native_world :: "host \<Rightarrow> start_env \<Rightarrow> world \<Rightarrow> world" where
  "native_world h e w =
     snd (check_components h e (fst (EnsureAllBundledComponentsExtracted h e w))
            (snd (EnsureAllBundledComponentsExtracted h e w)))"

section \<open>Sample hosts, environments and states\<close>

text \<open>
  A Linux host with an empty cache and the runc binary shipped beside the executable;
  an environment in which every operation succeeds, containerd and runc are on the
  \<open>PATH\<close> and the socket appears 300ms after the spawn; the server this start-up yields;
  and three environments of \<open>Stop\<close>: a process that ignores the interrupt, one that has
  exited with a failure status, one that exits cleanly.
\<close>

definition linux_host :: host where
  "linux_host =
     \<lparr>GOOS = Linux, env_OS = '''', homeDir = ''/home/u'',
      BundledBinaryDir = ''/home/u/.config/funserver/bin'', Executable = Inr ''/opt/fun/fun''\<rparr>"

definition no_faults :: faults where
  "no_faults =
     \<lparr>mkdir_err = (\<lambda>p. None), open_err = (\<lambda>p. None), create_err = (\<lambda>p. None),
      copy_err = (\<lambda>p. None), readdir_err = (\<lambda>p. None), stat_ok = (\<lambda>p. False),
      LookPath = (\<lambda>p. None)\<rparr>"

definition fresh_world :: world where
  "fresh_world =
     \<lparr>cache = None, cni = None,
      bundled = [(''/opt/fun/binaries/linux/runc'', \<lparr>mode = 493, bytes = [127, 69, 76, 70]\<rparr>)],
      bundled_cni = None, trace = []\<rparr>"

definition extracted_world :: world where
  "extracted_world =
     \<lparr>cache = Some [(''runc'', \<lparr>mode = 493, bytes = [127, 69, 76, 70]\<rparr>)], cni = None,
      bundled = [(''/opt/fun/binaries/linux/runc'', \<lparr>mode = 493, bytes = [127, 69, 76, 70]\<rparr>)],
      bundled_cni = None,
      trace = [MadeDir ''/home/u/.config/funserver/bin'',
               Created ''/home/u/.config/funserver/bin/runc'' 493,
               Wrote ''/home/u/.config/funserver/bin/runc'' 4]\<rparr>"

definition empty_config :: ServerConfig where
  "empty_config = \<lparr>Root = '''', State = '''', Address = '''', Config = '''', LogLevel = '''', LogFile = ''''\<rparr>"

definition cooperative :: start_env where
  "cooperative =
     \<lparr>mkdir_err = (\<lambda>p. None), open_err = (\<lambda>p. None), create_err = (\<lambda>p. None),
      copy_err = (\<lambda>p. None), readdir_err = (\<lambda>p. None),
      stat_ok = (\<lambda>p. p = ''/opt/cni/bin''),
      LookPath = (\<lambda>n. if n = ''containerd'' then Some ''/usr/bin/containerd''
                      else if n = ''runc'' then Some ''/usr/bin/runc'' else None),
      StartLinuxKitVM_err = None,
      IsWSL2Available_Start = False, IsWSL2Available_Env = False, IsWSL2Available_Sock = False,
      IsWSL2DistributionAvailable_Env = False, InstallWSL2Components_err = None,
      wsl_start_err = None, mountWSL2Directory_err = None, wsl_containerd_start_err = None,
      EnsureContainerdInWSL_err = None, cmd_start_err = None,
      socket_stat = (\<lambda>t. 300 * Millisecond \<le> t), tick_first = True\<rparr>"


definition started_cmd :: Cmd where
  "started_cmd =
     \<lparr>Path = ''/usr/bin/containerd'',
      Args = [''/usr/bin/containerd'', ''--root'', ''/home/u/.fun/containerd/root'', ''--state'',
              ''/home/u/.fun/containerd/state'', ''--address'',
              ''/home/u/.fun/containerd/containerd.sock'', ''--log-level'', ''info''],
      Process = True\<rparr>"

definition started_server :: Server where
  "started_server = (NewServer linux_host empty_config)\<lparr>cmd := Some started_cmd, running := True\<rparr>"

definition stubborn :: stop_env where
  "stubborn =
     \<lparr>StopLinuxKitVM_err = None, IsWSL2DistributionAvailable_Stop = False,
      wsl_terminate = ('''', None), interrupt_err = None, outcome = Timeout, kill_err = None,
      client_Close_err = None\<rparr>"

definition crashed :: stop_env where
  "crashed =
     \<lparr>StopLinuxKitVM_err = None, IsWSL2DistributionAvailable_Stop = False,
      wsl_terminate = ('''', None), interrupt_err = None, outcome = Exited (Some ''exit status 2''),
      kill_err = None, client_Close_err = None\<rparr>"

definition graceful :: stop_env where
  "graceful =
     \<lparr>StopLinuxKitVM_err = None, IsWSL2DistributionAvailable_Stop = False,
      wsl_terminate = ('''', None), interrupt_err = None, outcome = Exited None,
      kill_err = None, client_Close_err = None\<rparr>"

text \<open>
  An environment like \<open>cooperative\<close> whose socket never appears. A Windows host (its paths
  written as their elements, with backslashes between them) with nothing in its cache
  and nothing shipped, a configuration whose control address is a file path, and three
  environments for it: WSL2 available and starting, the same with a failing
  installation of containerd inside WSL2, and WSL2 unavailable.
\<close>

definition unresponsive :: start_env where
  "unresponsive = cooperative\<lparr>socket_stat := (\<lambda>t. False)\<rparr>"

definition backslashed :: "string list \<Rightarrow> string" where
  "backslashed elems = join_with (CHR 0x5C) elems"

definition windows_host :: host where
  "windows_host =
     \<lparr>GOOS = Windows, env_OS = ''Windows_NT'', homeDir = backslashed [''C:'', ''Users'', ''u''],
      BundledBinaryDir = backslashed [''C:'', ''Users'', ''u'', ''AppData'', ''Roaming'', ''funserver'', ''bin''],
      Executable = Inr (backslashed [''C:'', ''fun'', ''fun.exe''])\<rparr>"

definition empty_world :: world where
  "empty_world = \<lparr>cache = None, cni = None, bundled = [], bundled_cni = None, trace = []\<rparr>"

definition socket_config :: ServerConfig where
  "socket_config = empty_config\<lparr>Address := backslashed [''C:'', ''fun'', ''containerd.sock'']\<rparr>"

definition wsl_up :: start_env where
  "wsl_up =
     \<lparr>mkdir_err = (\<lambda>p. None), open_err = (\<lambda>p. None), create_err = (\<lambda>p. None),
      copy_err = (\<lambda>p. None), readdir_err = (\<lambda>p. None), stat_ok = (\<lambda>p. False),
      LookPath = (\<lambda>n. if n = ''containerd'' then Some (backslashed [''C:'', ''containerd'', ''containerd.exe''])
                      else if n = ''runc'' then Some (backslashed [''C:'', ''containerd'', ''runc.exe''])
                      else None),
      StartLinuxKitVM_err = None,
      IsWSL2Available_Start = True, IsWSL2Available_Env = True, IsWSL2Available_Sock = True,
      IsWSL2DistributionAvailable_Env = True, InstallWSL2Components_err = None,
      wsl_start_err = None, mountWSL2Directory_err = None, wsl_containerd_start_err = None,
      EnsureContainerdInWSL_err = None, cmd_start_err = None,
      socket_stat = (\<lambda>t. 300 * Millisecond \<le> t), tick_first = True\<rparr>"

definition wsl_up_install_fails :: start_env where
  "wsl_up_install_fails = wsl_up\<lparr>EnsureContainerdInWSL_err := Some ''exit status 100''\<rparr>"

definition wsl_gone :: start_env where
  "wsl_gone = wsl_up\<lparr>IsWSL2Available_Start := False, IsWSL2Available_Env := False,
                     IsWSL2Available_Sock := False\<rparr>"

text \<open>
  The backends the fields of a server record as active: the VM, the WSL2 environment,
  and the native engine (\<open>running\<close> with a spawned command), which is what \<open>Stop\<close> tests
  before it signals the process.
\<close>

definition active_backends :: "Server \<Rightarrow> nat" where
  "active_backends s =
     (if vmRunning s then 1 else 0) + (if wslRunning s then 1 else 0)
     + (if running s \<and> (case cmd s of None \<Rightarrow> False | Some c \<Rightarrow> Process c) then 1 else 0)"

text \<open>
  Two calls of \<open>Start\<close> on one new server on the Windows host, and a \<open>Stop\<close> after them. During
  the first WSL2 is available and comes up, and the installation of containerd inside
  it fails; during the second the WSL2 probe fails, and the native start-up finds its
  binaries on the \<open>PATH\<close> and its socket after 300ms.
\<close>

definition first_start :: "error option \<times> Server \<times> world" where
  "first_start = Server_Start windows_host wsl_up_install_fails (NewServer windows_host socket_config) empty_world"

definition second_start :: "error option \<times> Server \<times> world" where
  "second_start = Server_Start windows_host wsl_gone (fst (snd first_start)) (snd (snd first_start))"

definition third_stop :: "error option \<times> Server \<times> world" where
  "third_stop = Server_Stop windows_host graceful (fst (snd second_start)) (snd (snd second_start))"

text \<open>
  One call of \<open>Start\<close> on a new server with the default configuration on the Windows host,
  in which the WSL2 distribution is launched and the mount of the shared directory
  then fails.
\<close>

definition wsl_mount_fails :: start_env where
  "wsl_mount_fails = wsl_up\<lparr>mountWSL2Directory_err := Some ''exit status 32''\<rparr>"

definition mount_fails_start :: "error option \<times> Server \<times> world" where
  "mount_fails_start =
     Server_Start windows_host wsl_mount_fails (NewServer windows_host empty_config) empty_world"

text \<open>
  One call of \<open>Start\<close> on the Windows host with WSL2 unavailable, containerd and runc on
  the \<open>PATH\<close> and every operation succeeding: on a new server with the default
  configuration, and on one whose control address is a file path.
\<close>

definition default_fallback :: "error option \<times> Server \<times> world" where
  "default_fallback =
     Server_Start windows_host wsl_gone (NewServer windows_host empty_config) empty_world"

definition socket_fallback :: "error option \<times> Server \<times> world" where
  "socket_fallback =
     Server_Start windows_host wsl_gone (NewServer windows_host socket_config) empty_world"

text \<open>
  Two more worlds for the extractors. On the Windows host: an empty cache, with the
  containerd and runc binaries shipped beside the executable. On the Linux host: a cache
  that already holds a \<open>runc\<close> file of mode \<open>0644\<close> with an older content, and the runc
  binary shipped beside the executable.
\<close>

definition shipped_windows :: world where
  "shipped_windows =
     \<lparr>cache = None, cni = None,
      bundled =
        [(backslashed [''C:'', ''fun'', ''binaries'', ''windows'', ''containerd.exe''],
          \<lparr>mode = 438, bytes = [77, 90]\<rparr>),
         (backslashed [''C:'', ''fun'', ''binaries'', ''windows'', ''runc.exe''],
          \<lparr>mode = 438, bytes = [77, 90, 144]\<rparr>)],
      bundled_cni = None, trace = []\<rparr>"

definition stale_world :: world where
  "stale_world =
     \<lparr>cache = Some [(''runc'', \<lparr>mode = 420, bytes = [127, 69, 76, 70, 1, 1]\<rparr>)], cni = None,
      bundled = [(''/opt/fun/binaries/linux/runc'', \<lparr>mode = 493, bytes = [127, 69, 76, 70]\<rparr>)],
      bundled_cni = None, trace = []\<rparr>"

text \<open>Two calls in a row of the containerd extractor on the first, and of the runc
  extractor on the second.\<close>

definition windows_twice :: "error option \<times> world" where
  "windows_twice =
     EnsureBundledContainerdExtracted windows_host no_faults
       (snd (EnsureBundledContainerdExtracted windows_host no_faults shipped_windows))"

definition stale_twice :: "error option \<times> world" where
  "stale_twice =
     EnsureBundledRuncExtracted linux_host no_faults
       (snd (EnsureBundledRuncExtracted linux_host no_faults stale_world))"

fun is_wsl_spawn :: "event \<Rightarrow> bool" where
  "is_wsl_spawn (SpawnWSL a) = True"
| "is_wsl_spawn ev = False"

section \<open>Properties of the readiness wait\<close>

lemma poll_socket_result:
  "fst (poll_socket stat tf p timeout t) = None \<or>
   fst (poll_socket stat tf p timeout t) = Some (timeout_error p)"
proof (induction stat tf p timeout t rule: poll_socket.induct)
  case (1 stat tf p timeout t)
  show ?case
    using 1 by (subst (1 2) poll_socket.simps) (auto simp: Let_def)
qed

lemma poll_socket_bound:
  "t \<le> snd (poll_socket stat tf p timeout t) \<and> snd (poll_socket stat tf p timeout t) \<le> max t timeout"
proof (induction stat tf p timeout t rule: poll_socket.induct)
  case (1 stat tf p timeout t)
  show ?case
    using 1 by (subst (1 2) poll_socket.simps) (auto simp: Let_def Millisecond_def)
qed

lemma poll_socket_success:
  "fst (poll_socket stat tf p timeout t) = None \<Longrightarrow> 0 \<le> t \<Longrightarrow> (100 * Millisecond) dvd t \<Longrightarrow>
   stat (snd (poll_socket stat tf p timeout t)) \<and> is_tick (snd (poll_socket stat tf p timeout t))"
proof (induction stat tf p timeout t rule: poll_socket.induct)
  case (1 stat tf p timeout t)
  let ?next = "t + 100 * Millisecond"
  show ?case
  proof (cases "?next < timeout \<or> (?next = timeout \<and> tf)")
    case go: True
    show ?thesis
    proof (cases "stat ?next")
      case True
      with go have "poll_socket stat tf p timeout t = (None, ?next)"
        by (subst poll_socket.simps) (simp add: Let_def)
      with True "1.prems" show ?thesis by (simp add: is_tick_def Millisecond_def)
    next
      case False
      with go have eq: "poll_socket stat tf p timeout t = poll_socket stat tf p timeout ?next"
        by (subst poll_socket.simps) (simp add: Let_def)
      have "0 \<le> ?next" "(100 * Millisecond) dvd ?next"
        using "1.prems" by (simp_all add: Millisecond_def)
      with "1.IH"[OF refl go False] "1.prems"(1) eq show ?thesis by simp
    qed
  next
    case False
    then have "poll_socket stat tf p timeout t = (Some (timeout_error p), max t timeout)"
      by (subst poll_socket.simps) (auto simp: Let_def)
    with "1.prems" show ?thesis by simp
  qed
qed

lemma tick_Suc: "tick k + 100 * Millisecond = tick (Suc k)"
  by (simp add: tick_def distrib_right)

lemma poll_socket_first:
  "tick (m + Suc n) < timeout \<Longrightarrow> stat (tick (m + Suc n)) \<Longrightarrow>
   (\<forall>j. m < j \<and> j < m + Suc n \<longrightarrow> \<not> stat (tick j)) \<Longrightarrow>
   poll_socket stat tf p timeout (tick m) = (None, tick (m + Suc n))"
proof (induction n arbitrary: m)
  case 0
  then show ?case by (subst poll_socket.simps) (simp add: Let_def tick_Suc)
next
  case (Suc n)
  have mono: "tick (Suc m) < tick (m + Suc (Suc n))"
    by (simp add: tick_def Millisecond_def)
  have lt: "tick (Suc m) < timeout" using Suc.prems(1) mono by linarith
  have ns: "\<not> stat (tick (Suc m))" using Suc.prems(3) by simp
  have eq: "poll_socket stat tf p timeout (tick m) = poll_socket stat tf p timeout (tick (Suc m))"
    using lt ns by (subst poll_socket.simps) (simp add: Let_def tick_Suc)
  have idx: "Suc m + Suc n = m + Suc (Suc n)" by simp
  have "poll_socket stat tf p timeout (tick (Suc m)) = (None, tick (Suc m + Suc n))"
  proof (rule Suc.IH)
    show "tick (Suc m + Suc n) < timeout" using Suc.prems(1) unfolding idx .
    show "stat (tick (Suc m + Suc n))" using Suc.prems(2) unfolding idx .
    show "\<forall>j. Suc m < j \<and> j < Suc m + Suc n \<longrightarrow> \<not> stat (tick j)"
      using Suc.prems(3) by simp
  qed
  with eq show ?case unfolding idx by simp
qed

text \<open>
  C6. For every address and every timeout \<open>WaitForSocket\<close> returns (it is a total function
  whose loop has a decreasing measure), and what it returns is either success or the
  timeout error; it has no other exit, its context being private to it. It returns no
  later than the timeout, a timeout that is not positive counting as none and so, all
  the more, no later than the timeout plus one 100ms period. A success is returned at a
  tick at which the probe succeeded, and for a probed address the first tick before the
  deadline at which the probe succeeds is the moment of return.
\<close>

theorem WaitForSocket_terminates_within_budget:
  "(fst (WaitForSocket stat tf path timeout) = None \<or>
      fst (WaitForSocket stat tf path timeout) = Some (timeout_error path))
   \<and> 0 \<le> snd (WaitForSocket stat tf path timeout)
   \<and> snd (WaitForSocket stat tf path timeout) \<le> max 0 timeout + 100 * Millisecond
   \<and> (fst (WaitForSocket stat tf path timeout) = None \<longrightarrow>
        stat (snd (WaitForSocket stat tf path timeout)) \<and> is_tick (snd (WaitForSocket stat tf path timeout)))
   \<and> (\<forall>k. \<not> HasPrefix path pipe_prefix \<and> 0 < k \<and> tick k < timeout \<and> stat (tick k) \<and> (\<forall>j. 0 < j \<and> j < k \<longrightarrow> \<not> stat (tick j))
         \<longrightarrow> WaitForSocket stat tf path timeout = (None, tick k))"
proof (cases "HasPrefix path pipe_prefix")
  case True
  then show ?thesis
    by (simp add: WaitForSocket_def ctx_deadline_exceeded_def Millisecond_def)
next
  case False
  have eq: "WaitForSocket stat tf path timeout = poll_socket stat tf path timeout 0"
    using False by (simp add: WaitForSocket_def)
  have first: "WaitForSocket stat tf path timeout = (None, tick k)"
    if kpos: "0 < k" and klt: "tick k < timeout" and kst: "stat (tick k)"
      and kfirst: "\<forall>j. 0 < j \<and> j < k \<longrightarrow> \<not> stat (tick j)" for k
  proof -
    obtain n where k: "k = 0 + Suc n" using kpos by (cases k) auto
    have "poll_socket stat tf path timeout (tick 0) = (None, tick (0 + Suc n))"
      using klt kst kfirst unfolding k by (intro poll_socket_first) auto
    then show ?thesis using eq k by (simp add: tick_def)
  qed
  show ?thesis
    unfolding eq
    using poll_socket_result[of stat tf path timeout 0] poll_socket_bound[of 0 stat tf path timeout]
      poll_socket_success[of stat tf path timeout 0] first
    unfolding eq
    by (auto simp: Millisecond_def)
qed


theorem WaitForSocket_terminates_within_budget_witness:
  "WaitForSocket (\<lambda>t. 300 * Millisecond \<le> t) True ''/run/containerd.sock'' Second = (None, 300 * Millisecond)"
proof -
  have np: "\<not> HasPrefix ''/run/containerd.sock'' pipe_prefix" by (simp add: HasPrefix_def pipe_prefix_def)
  have t3: "tick 3 = 300 * Millisecond" by (simp add: tick_def)
  have lt: "tick 3 < Second" by (simp add: tick_def Second_def Millisecond_def)
  have st: "300 * Millisecond \<le> tick 3" by (simp add: tick_def)
  have fst: "\<forall>j. 0 < j \<and> j < (3::nat) \<longrightarrow> \<not> (300 * Millisecond \<le> tick j)"
    by (auto simp: tick_def Millisecond_def)
  have pos: "0 < (3::nat)" by simp
  note A = WaitForSocket_terminates_within_budget[of "\<lambda>t. 300 * Millisecond \<le> t" True "''/run/containerd.sock''" Second,
              THEN conjunct2, THEN conjunct2, THEN conjunct2, THEN conjunct2, THEN spec, of 3, THEN mp]
  have "WaitForSocket (\<lambda>t. 300 * Millisecond \<le> t) True ''/run/containerd.sock'' Second = (None, tick 3)"
    by (rule A) (intro conjI np pos lt st fst)
  then show ?thesis by (simp only: t3)
qed

text \<open>
  C3. For every address of the named-pipe scheme (the prefix \<^verbatim>\<open>\\.\pipe\\<close> followed by any name)
  and every timeout, whatever the probes would answer, \<open>WaitForSocket\<close> waits the full
  timeout without polling and then returns the timeout error, not success; so it does for
  the default Windows address and the 30 seconds of \<open>Start\<close>.
\<close>

theorem WaitForSocket_named_pipe_reports_timeout:
  "WaitForSocket stat tf (pipe_prefix @ name) timeout
     = (Some (timeout_error (pipe_prefix @ name)), max 0 timeout)
   \<and> WaitForSocket stat tf (pipe_prefix @ ''fun-containerd'') (30 * Second)
     = (Some (timeout_error (pipe_prefix @ ''fun-containerd'')), 30 * Second)"
  by (simp add: WaitForSocket_def HasPrefix_def ctx_deadline_exceeded_def Second_def Millisecond_def)

section \<open>Properties of the provisioning cache\<close>

lemma map_of_io_Copy:
  "map_of (map (\<lambda>(k, v). if k = name then (k, g v) else (k, v)) dir) x =
     (if x = name then map_option g (map_of dir x) else map_of dir x)"
  by (induction dir) auto

lemma exec_0755: "perm_0755 AND exec_bits \<noteq> 0"
  by (simp add: perm_0755_def exec_bits_def)

lemma MkdirAll_cache_exists: "stat_cache w name \<noteq> None \<Longrightarrow> MkdirAll_cache h f w = (None, w)"
  by (auto simp: MkdirAll_cache_def stat_cache_def split: option.splits)

lemma is_executable_exists: "is_executable g (stat_cache w name) \<Longrightarrow> stat_cache w name \<noteq> None"
  by (auto simp: is_executable_def split: option.splits)

lemma not_executable_on_Windows: "\<not> is_executable Windows info"
  by (simp add: is_executable_def Mode_def exec_bits_def split: option.splits)

lemma MkdirAll_cache_stat:
  "MkdirAll_cache h f w = (None, w1) \<Longrightarrow>
   stat_cache w1 name = stat_cache w name \<and> cache w1 \<noteq> None \<and>
   writes_to p w1 = writes_to p w \<and> bundled w1 = bundled w"
  by (auto simp: MkdirAll_cache_def stat_cache_def emit_def writes_to_def split: option.splits if_splits)

text \<open>A successful copy writes the destination once; it leaves the permission bits of
  a destination that was there, and gives \<open>0755\<close> to one that was not.\<close>

lemma copy_to_cache_writes:
  assumes "copy_to_cache f sp bp exe src msg w = (None, w')"
  shows "writes_to bp w' = Suc (writes_to bp w) \<and>
         map_option mode (stat_cache w' exe) =
           Some (case stat_cache w exe of None \<Rightarrow> perm_0755 | Some i \<Rightarrow> mode i)"
proof -
  from assms obtain d where d: "cache w = Some d"
    by (auto simp: copy_to_cache_def split: option.splits)
  from assms d have ce: "copy_err f bp = None"
    by (auto simp: copy_to_cache_def io_Copy_def Let_def split: option.splits prod.splits)
  let ?d1 = "fst (open_create bp exe perm_0755 d w)"
  let ?w1 = "snd (open_create bp exe perm_0755 d w)"
  let ?g = "\<lambda>v. v\<lparr>bytes := overwrite (bytes src) (bytes v)\<rparr>"
  from assms d ce have w': "w' = (emit (Wrote bp (length (bytes src))) ?w1)
      \<lparr>cache := Some (map (\<lambda>(k, v). if k = exe then (k, ?g v) else (k, v)) ?d1)\<rparr>"
    by (auto simp: copy_to_cache_def io_Copy_def Let_def case_prod_beta split: option.splits)
  have wr: "writes_to bp ?w1 = writes_to bp w"
    by (simp add: open_create_def writes_to_def emit_def split: option.splits)
  have st: "stat_cache w' exe = map_option ?g (map_of ?d1 exe)"
    unfolding w' stat_cache_def by (simp add: emit_def map_of_io_Copy)
  have d1: "map_option mode (map_of ?d1 exe) =
      Some (case map_of d exe of None \<Rightarrow> perm_0755 | Some i \<Rightarrow> mode i)"
    by (simp add: open_create_def map_add_def split: option.splits)
  have "writes_to bp w' = Suc (writes_to bp w)"
    unfolding w' using wr by (simp add: emit_def writes_to_def)
  moreover have "map_option mode (stat_cache w' exe) =
      Some (case stat_cache w exe of None \<Rightarrow> perm_0755 | Some i \<Rightarrow> mode i)"
    using d1 unfolding st by (simp add: stat_cache_def d option.map_comp comp_def)
  ultimately show ?thesis by simp
qed

text \<open>A destination that is not executable because the host is Windows, or because it
  exists without any executable bit, is not executable after a copy either.\<close>

lemma never_executable_not: "never_executable g w exe \<Longrightarrow> \<not> is_executable g (stat_cache w exe)"
proof (cases "g = Windows")
  case True
  then show ?thesis using not_executable_on_Windows by simp
next
  case False
  assume "never_executable g w exe"
  with False show ?thesis by (auto simp: never_executable_def is_executable_def Mode_def)
qed

lemma never_executable_kept:
  assumes "never_executable g w exe"
    and "map_option mode (stat_cache w1 exe) =
           Some (case stat_cache w exe of None \<Rightarrow> perm_0755 | Some i \<Rightarrow> mode i)"
  shows "never_executable g w1 exe"
  using assms by (auto simp: never_executable_def)

text \<open>
  For each of the three extractors: the call that finds its destination executable
  does nothing (\<open>noop\<close>); a successful call that does not find it so writes it once
  (\<open>writes\<close>); two successful calls over a destination that is never executable write
  it twice (\<open>again\<close>); and on a host other than Windows, a successful call over an absent
  destination writes it once and makes the next call do nothing (\<open>twice\<close>).
\<close>

lemma runc_noop:
  "is_executable (GOOS h) (stat_cache w (runc_exe h)) \<Longrightarrow> EnsureBundledRuncExtracted h f w = (None, w)"
  using MkdirAll_cache_exists[OF is_executable_exists, of "GOOS h" w "runc_exe h" h f]
  by (simp add: EnsureBundledRuncExtracted_def)

lemma runc_writes:
  assumes "EnsureBundledRuncExtracted h f w = (None, w1)"
    and "\<not> is_executable (GOOS h) (stat_cache w (runc_exe h))"
  shows "writes_to (GetBundledRuncPath h) w1 = Suc (writes_to (GetBundledRuncPath h) w) \<and>
         map_option mode (stat_cache w1 (runc_exe h)) =
           Some (case stat_cache w (runc_exe h) of None \<Rightarrow> perm_0755 | Some i \<Rightarrow> mode i)"
proof -
  from assms(1) obtain w0 where mk: "MkdirAll_cache h f w = (None, w0)"
    by (auto simp: EnsureBundledRuncExtracted_def split: prod.splits option.splits)
  note st = MkdirAll_cache_stat[OF mk]
  from assms(2) st have ne: "\<not> is_executable (GOOS h) (stat_cache w0 (runc_exe h))" by simp
  from assms(1) mk ne obtain sp src where
    cp: "copy_to_cache f sp (GetBundledRuncPath h) (runc_exe h) src ''failed to copy runc binary'' w0 = (None, w1)"
    by (auto simp: EnsureBundledRuncExtracted_def Let_def split: sum.splits option.splits if_splits)
  from copy_to_cache_writes[OF cp] st show ?thesis by simp
qed

lemma runc_again:
  assumes "EnsureBundledRuncExtracted h f w = (None, w1)"
    and "EnsureBundledRuncExtracted h f' w1 = (None, w2)"
    and "never_executable (GOOS h) w (runc_exe h)"
  shows "writes_to (GetBundledRuncPath h) w2 = writes_to (GetBundledRuncPath h) w + 2"
proof -
  note a = runc_writes[OF assms(1) never_executable_not[OF assms(3)]]
  note n1 = never_executable_kept[OF assms(3) a[THEN conjunct2]]
  note b = runc_writes[OF assms(2) never_executable_not[OF n1]]
  from a b show ?thesis by simp
qed

lemma runc_twice:
  assumes "EnsureBundledRuncExtracted h f w = (None, w1)"
    and "GOOS h \<noteq> Windows" and "stat_cache w (runc_exe h) = None"
  shows "EnsureBundledRuncExtracted h f' w1 = (None, w1) \<and>
         writes_to (GetBundledRuncPath h) w1 = Suc (writes_to (GetBundledRuncPath h) w)"
proof -
  from assms(3) have ne: "\<not> is_executable (GOOS h) (stat_cache w (runc_exe h))"
    by (simp add: is_executable_def)
  note a = runc_writes[OF assms(1) ne]
  from a assms(2,3) exec_0755 have "is_executable (GOOS h) (stat_cache w1 (runc_exe h))"
    by (auto simp: is_executable_def Mode_def split: option.splits)
  from runc_noop[OF this, of f'] a show ?thesis by simp
qed


lemma containerd_noop:
  "is_executable (GOOS h) (stat_cache w (containerd_exe h)) \<Longrightarrow> extractBundledContainerd h f w = (None, w)"
  using MkdirAll_cache_exists[OF is_executable_exists, of "GOOS h" w "containerd_exe h" h f]
  by (simp add: extractBundledContainerd_def)

lemma containerd_writes:
  assumes "extractBundledContainerd h f w = (None, w1)"
    and "\<not> is_executable (GOOS h) (stat_cache w (containerd_exe h))"
  shows "writes_to (GetBundledContainerdPath h) w1 = Suc (writes_to (GetBundledContainerdPath h) w) \<and>
         map_option mode (stat_cache w1 (containerd_exe h)) =
           Some (case stat_cache w (containerd_exe h) of None \<Rightarrow> perm_0755 | Some i \<Rightarrow> mode i)"
proof -
  from assms(1) obtain w0 where mk: "MkdirAll_cache h f w = (None, w0)"
    by (auto simp: extractBundledContainerd_def split: prod.splits option.splits)
  note st = MkdirAll_cache_stat[OF mk]
  from assms(2) st have ne: "\<not> is_executable (GOOS h) (stat_cache w0 (containerd_exe h))" by simp
  from assms(1) mk ne obtain sp src where
    cp: "copy_to_cache f sp (GetBundledContainerdPath h) (containerd_exe h) src ''failed to extract binary'' w0 = (None, w1)"
    by (auto simp: extractBundledContainerd_def Let_def split: sum.splits option.splits if_splits)
  from copy_to_cache_writes[OF cp] st show ?thesis by simp
qed

lemma containerd_again:
  assumes "extractBundledContainerd h f w = (None, w1)"
    and "extractBundledContainerd h f' w1 = (None, w2)"
    and "never_executable (GOOS h) w (containerd_exe h)"
  shows "writes_to (GetBundledContainerdPath h) w2 = writes_to (GetBundledContainerdPath h) w + 2"
proof -
  note a = containerd_writes[OF assms(1) never_executable_not[OF assms(3)]]
  note n1 = never_executable_kept[OF assms(3) a[THEN conjunct2]]
  note b = containerd_writes[OF assms(2) never_executable_not[OF n1]]
  from a b show ?thesis by simp
qed

lemma containerd_twice:
  assumes "extractBundledContainerd h f w = (None, w1)"
    and "GOOS h \<noteq> Windows" and "stat_cache w (containerd_exe h) = None"
  shows "extractBundledContainerd h f' w1 = (None, w1) \<and>
         writes_to (GetBundledContainerdPath h) w1 = Suc (writes_to (GetBundledContainerdPath h) w)"
proof -
  from assms(3) have ne: "\<not> is_executable (GOOS h) (stat_cache w (containerd_exe h))"
    by (simp add: is_executable_def)
  note a = containerd_writes[OF assms(1) ne]
  from a assms(2,3) exec_0755 have "is_executable (GOOS h) (stat_cache w1 (containerd_exe h))"
    by (auto simp: is_executable_def Mode_def split: option.splits)
  from containerd_noop[OF this, of f'] a show ?thesis by simp
qed


lemma hyperkit_noop:
  "is_executable (GOOS h) (stat_cache w ''hyperkit'') \<Longrightarrow> EnsureBundledHyperKitExtracted h f w = (None, w)"
  using MkdirAll_cache_exists[OF is_executable_exists, of "GOOS h" w "''hyperkit''" h f]
  by (simp add: EnsureBundledHyperKitExtracted_def)

lemma hyperkit_writes:
  assumes "EnsureBundledHyperKitExtracted h f w = (None, w1)"
    and "\<not> is_executable (GOOS h) (stat_cache w ''hyperkit'')"
  shows "writes_to (GetBundledHyperKitPath h) w1 = Suc (writes_to (GetBundledHyperKitPath h) w) \<and>
         map_option mode (stat_cache w1 ''hyperkit'') =
           Some (case stat_cache w ''hyperkit'' of None \<Rightarrow> perm_0755 | Some i \<Rightarrow> mode i)"
proof -
  from assms(1) obtain w0 where mk: "MkdirAll_cache h f w = (None, w0)"
    by (auto simp: EnsureBundledHyperKitExtracted_def split: prod.splits option.splits)
  note st = MkdirAll_cache_stat[OF mk]
  from assms(2) st have ne: "\<not> is_executable (GOOS h) (stat_cache w0 ''hyperkit'')" by simp
  from assms(1) mk ne obtain sp src where
    cp: "copy_to_cache f sp (GetBundledHyperKitPath h) ''hyperkit'' src ''failed to extract binary'' w0 = (None, w1)"
    by (auto simp: EnsureBundledHyperKitExtracted_def Let_def split: sum.splits option.splits if_splits)
  from copy_to_cache_writes[OF cp] st show ?thesis by simp
qed

lemma hyperkit_again:
  assumes "EnsureBundledHyperKitExtracted h f w = (None, w1)"
    and "EnsureBundledHyperKitExtracted h f' w1 = (None, w2)"
    and "never_executable (GOOS h) w ''hyperkit''"
  shows "writes_to (GetBundledHyperKitPath h) w2 = writes_to (GetBundledHyperKitPath h) w + 2"
proof -
  note a = hyperkit_writes[OF assms(1) never_executable_not[OF assms(3)]]
  note n1 = never_executable_kept[OF assms(3) a[THEN conjunct2]]
  note b = hyperkit_writes[OF assms(2) never_executable_not[OF n1]]
  from a b show ?thesis by simp
qed

lemma hyperkit_twice:
  assumes "EnsureBundledHyperKitExtracted h f w = (None, w1)"
    and "GOOS h \<noteq> Windows" and "stat_cache w ''hyperkit'' = None"
  shows "EnsureBundledHyperKitExtracted h f' w1 = (None, w1) \<and>
         writes_to (GetBundledHyperKitPath h) w1 = Suc (writes_to (GetBundledHyperKitPath h) w)"
proof -
  from assms(3) have ne: "\<not> is_executable (GOOS h) (stat_cache w ''hyperkit'')"
    by (simp add: is_executable_def)
  note a = hyperkit_writes[OF assms(1) ne]
  from a assms(2,3) exec_0755 have "is_executable (GOOS h) (stat_cache w1 ''hyperkit'')"
    by (auto simp: is_executable_def Mode_def split: option.splits)
  from hyperkit_noop[OF this, of f'] a show ?thesis by simp
qed


lemma first_extraction:
  "EnsureBundledRuncExtracted linux_host no_faults fresh_world = (None, extracted_world)"
  by code_simp

text \<open>The plugin extractor is guarded by the listing of the plugin directory instead: it
  does nothing when the directory can be read and is not empty.\<close>

lemma cni_noop:
  "cni w = Some d \<Longrightarrow> d \<noteq> [] \<Longrightarrow> readdir_err f (GetBundledCNIPath h) = None \<Longrightarrow>
   EnsureBundledCNIPluginsExtracted h f w = (None, w)"
  by (simp add: EnsureBundledCNIPluginsExtracted_def MkdirAll_cni_def Let_def)

text \<open>
  C4. Each single-binary extractor (containerd, runc, HyperKit) does nothing when \<open>os.Stat\<close>
  reports its destination with an executable bit: the call returns success and leaves
  the world as it was, no directory made, no file created, no byte written. But two
  calls in a row do not always write once. On a Windows host, where no regular file is
  reported with an executable bit, and on any host whose cache holds the destination
  without an executable bit (the extractor opens it without changing its mode), two
  successful calls in a row write the destination twice. On the sample Windows host,
  from an empty cache, two calls of the containerd extractor succeed and create the
  file once and write it twice; on the sample Linux host, over a \<open>runc\<close> of mode \<open>0644\<close>,
  two calls of the runc extractor succeed and write it twice, and leave it with mode
  \<open>0644\<close> and the tail of its older content.
\<close>

theorem EnsureExtracted_extracts_again:
  "(is_executable (GOOS h) (stat_cache w (containerd_exe h)) \<longrightarrow>
      EnsureBundledContainerdExtracted h f w = (None, w))
   \<and> (is_executable (GOOS h) (stat_cache w (runc_exe h)) \<longrightarrow>
      EnsureBundledRuncExtracted h f w = (None, w))
   \<and> (is_executable (GOOS h) (stat_cache w ''hyperkit'') \<longrightarrow>
      EnsureBundledHyperKitExtracted h f w = (None, w))
   \<and> ((GOOS h = Windows \<or> (\<exists>i. stat_cache w (containerd_exe h) = Some i \<and> mode i AND exec_bits = 0))
        \<and> EnsureBundledContainerdExtracted h f w = (None, w1)
        \<and> EnsureBundledContainerdExtracted h f' w1 = (None, w1') \<longrightarrow>
      writes_to (GetBundledContainerdPath h) w1' = writes_to (GetBundledContainerdPath h) w + 2)
   \<and> ((GOOS h = Windows \<or> (\<exists>i. stat_cache w (runc_exe h) = Some i \<and> mode i AND exec_bits = 0))
        \<and> EnsureBundledRuncExtracted h f w = (None, w2)
        \<and> EnsureBundledRuncExtracted h f' w2 = (None, w2') \<longrightarrow>
      writes_to (GetBundledRuncPath h) w2' = writes_to (GetBundledRuncPath h) w + 2)
   \<and> ((GOOS h = Windows \<or> (\<exists>i. stat_cache w ''hyperkit'' = Some i \<and> mode i AND exec_bits = 0))
        \<and> EnsureBundledHyperKitExtracted h f w = (None, w3)
        \<and> EnsureBundledHyperKitExtracted h f' w3 = (None, w3') \<longrightarrow>
      writes_to (GetBundledHyperKitPath h) w3' = writes_to (GetBundledHyperKitPath h) w + 2)
   \<and> fst (EnsureBundledContainerdExtracted windows_host no_faults shipped_windows) = None
   \<and> fst windows_twice = None
   \<and> trace (snd windows_twice) =
        [MadeDir (backslashed [''C:'', ''Users'', ''u'', ''AppData'', ''Roaming'', ''funserver'', ''bin'']),
         Created (backslashed [''C:'', ''Users'', ''u'', ''AppData'', ''Roaming'', ''funserver'', ''bin'', ''containerd.exe'']) 493,
         Wrote (backslashed [''C:'', ''Users'', ''u'', ''AppData'', ''Roaming'', ''funserver'', ''bin'', ''containerd.exe'']) 2,
         Wrote (backslashed [''C:'', ''Users'', ''u'', ''AppData'', ''Roaming'', ''funserver'', ''bin'', ''containerd.exe'']) 2]
   \<and> fst (EnsureBundledRuncExtracted linux_host no_faults stale_world) = None
   \<and> fst stale_twice = None
   \<and> trace (snd stale_twice) =
        [Wrote ''/home/u/.config/funserver/bin/runc'' 4, Wrote ''/home/u/.config/funserver/bin/runc'' 4]
   \<and> stat_cache (snd stale_twice) ''runc'' = Some \<lparr>mode = 420, bytes = [127, 69, 76, 70, 1, 1]\<rparr>"
proof -
  have noop: "(is_executable (GOOS h) (stat_cache w (containerd_exe h)) \<longrightarrow>
      EnsureBundledContainerdExtracted h f w = (None, w))
   \<and> (is_executable (GOOS h) (stat_cache w (runc_exe h)) \<longrightarrow>
      EnsureBundledRuncExtracted h f w = (None, w))
   \<and> (is_executable (GOOS h) (stat_cache w ''hyperkit'') \<longrightarrow>
      EnsureBundledHyperKitExtracted h f w = (None, w))"
    unfolding EnsureBundledContainerdExtracted_def
    using containerd_noop[of h w f] runc_noop[of h w f] hyperkit_noop[where w=w and h=h and f=f]
    by blast
  have c: "writes_to (GetBundledContainerdPath h) w1' = writes_to (GetBundledContainerdPath h) w + 2"
    if "GOOS h = Windows \<or> (\<exists>i. stat_cache w (containerd_exe h) = Some i \<and> mode i AND exec_bits = 0)"
      "EnsureBundledContainerdExtracted h f w = (None, w1)"
      "EnsureBundledContainerdExtracted h f' w1 = (None, w1')"
    using containerd_again[of h f w w1 f' w1'] that
    by (simp add: EnsureBundledContainerdExtracted_def never_executable_def)
  have r: "writes_to (GetBundledRuncPath h) w2' = writes_to (GetBundledRuncPath h) w + 2"
    if "GOOS h = Windows \<or> (\<exists>i. stat_cache w (runc_exe h) = Some i \<and> mode i AND exec_bits = 0)"
      "EnsureBundledRuncExtracted h f w = (None, w2)"
      "EnsureBundledRuncExtracted h f' w2 = (None, w2')"
    using runc_again[of h f w w2 f' w2'] that by (simp add: never_executable_def)
  have k: "writes_to (GetBundledHyperKitPath h) w3' = writes_to (GetBundledHyperKitPath h) w + 2"
    if "GOOS h = Windows \<or> (\<exists>i. stat_cache w ''hyperkit'' = Some i \<and> mode i AND exec_bits = 0)"
      "EnsureBundledHyperKitExtracted h f w = (None, w3)"
      "EnsureBundledHyperKitExtracted h f' w3 = (None, w3')"
    using hyperkit_again[where h=h and f=f and w=w and ?w1.0=w3 and f'=f' and ?w2.0=w3'] that
    by (simp add: never_executable_def)
  have win1: "fst (EnsureBundledContainerdExtracted windows_host no_faults shipped_windows) = None"
    by code_simp
  have win2: "fst windows_twice = None" by code_simp
  have win3: "trace (snd windows_twice) =
        [MadeDir (backslashed [''C:'', ''Users'', ''u'', ''AppData'', ''Roaming'', ''funserver'', ''bin'']),
         Created (backslashed [''C:'', ''Users'', ''u'', ''AppData'', ''Roaming'', ''funserver'', ''bin'', ''containerd.exe'']) 493,
         Wrote (backslashed [''C:'', ''Users'', ''u'', ''AppData'', ''Roaming'', ''funserver'', ''bin'', ''containerd.exe'']) 2,
         Wrote (backslashed [''C:'', ''Users'', ''u'', ''AppData'', ''Roaming'', ''funserver'', ''bin'', ''containerd.exe'']) 2]"
    by code_simp
  have lin1: "fst (EnsureBundledRuncExtracted linux_host no_faults stale_world) = None"
    by code_simp
  have lin2: "fst stale_twice = None" by code_simp
  have lin3: "trace (snd stale_twice) =
        [Wrote ''/home/u/.config/funserver/bin/runc'' 4, Wrote ''/home/u/.config/funserver/bin/runc'' 4]"
    by code_simp
  have lin4: "stat_cache (snd stale_twice) ''runc'' = Some \<lparr>mode = 420, bytes = [127, 69, 76, 70, 1, 1]\<rparr>"
    by code_simp
  from c r k have again:
    "((GOOS h = Windows \<or> (\<exists>i. stat_cache w (containerd_exe h) = Some i \<and> mode i AND exec_bits = 0))
        \<and> EnsureBundledContainerdExtracted h f w = (None, w1)
        \<and> EnsureBundledContainerdExtracted h f' w1 = (None, w1') \<longrightarrow>
      writes_to (GetBundledContainerdPath h) w1' = writes_to (GetBundledContainerdPath h) w + 2)
   \<and> ((GOOS h = Windows \<or> (\<exists>i. stat_cache w (runc_exe h) = Some i \<and> mode i AND exec_bits = 0))
        \<and> EnsureBundledRuncExtracted h f w = (None, w2)
        \<and> EnsureBundledRuncExtracted h f' w2 = (None, w2') \<longrightarrow>
      writes_to (GetBundledRuncPath h) w2' = writes_to (GetBundledRuncPath h) w + 2)
   \<and> ((GOOS h = Windows \<or> (\<exists>i. stat_cache w ''hyperkit'' = Some i \<and> mode i AND exec_bits = 0))
        \<and> EnsureBundledHyperKitExtracted h f w = (None, w3)
        \<and> EnsureBundledHyperKitExtracted h f' w3 = (None, w3') \<longrightarrow>
      writes_to (GetBundledHyperKitPath h) w3' = writes_to (GetBundledHyperKitPath h) w + 2)"
    by blast
  show ?thesis
    by (intro conjI noop[THEN conjunct1] noop[THEN conjunct2, THEN conjunct1]
        noop[THEN conjunct2, THEN conjunct2] again[THEN conjunct1]
        again[THEN conjunct2, THEN conjunct1] again[THEN conjunct2, THEN conjunct2]
        win1 win2 win3 lin1 lin2 lin3 lin4)
qed

theorem EnsureExtracted_extracts_again_witness:
  "writes_to (GetBundledRuncPath linux_host) (snd stale_twice) = 2
   \<and> EnsureBundledRuncExtracted linux_host no_faults extracted_world = (None, extracted_world)"
proof -
  obtain w1 where a: "EnsureBundledRuncExtracted linux_host no_faults stale_world = (None, w1)"
    using EnsureExtracted_extracts_again[of linux_host stale_world no_faults]
    by (metis prod.collapse)
  have b: "EnsureBundledRuncExtracted linux_host no_faults w1 = (None, snd stale_twice)"
    using EnsureExtracted_extracts_again[of linux_host stale_world no_faults] a
    by (metis prod.collapse stale_twice_def snd_conv)
  have st: "\<exists>i. stat_cache stale_world (runc_exe linux_host) = Some i \<and> mode i AND exec_bits = 0"
    by (simp add: stat_cache_def stale_world_def runc_exe_def linux_host_def exec_bits_def)
  have w0: "writes_to (GetBundledRuncPath linux_host) stale_world = 0"
    by (simp add: writes_to_def stale_world_def)
  have ex: "is_executable (GOOS linux_host) (stat_cache extracted_world (runc_exe linux_host))"
    by (simp add: is_executable_def Mode_def stat_cache_def extracted_world_def runc_exe_def
        linux_host_def exec_bits_def)
  note T = EnsureExtracted_extracts_again[of linux_host stale_world no_faults _ no_faults _ w1 "snd stale_twice"]
  from T st a b w0 have "writes_to (GetBundledRuncPath linux_host) (snd stale_twice) = 2" by simp
  moreover from EnsureExtracted_extracts_again[of linux_host extracted_world no_faults] ex
  have "EnsureBundledRuncExtracted linux_host no_faults extracted_world = (None, extracted_world)"
    by blast
  ultimately show ?thesis by simp
qed

section \<open>Properties of \<open>Stop\<close>\<close>

text \<open>The sample server is the one the sample start-up on Linux yields.\<close>

lemma cooperative_start_yields_started_server:
  "fst (Server_Start linux_host cooperative (NewServer linux_host empty_config) fresh_world) = None
   \<and> fst (snd (Server_Start linux_host cooperative (NewServer linux_host empty_config) fresh_world))
        = started_server"
  by code_simp

lemma Server_Stop_native:
  assumes "\<not> (IsRunningOnMacOS h \<and> vmRunning s)" "\<not> (IsRunningOnWindows h \<and> wslRunning s)"
    "running s" "cmd s = Some c" "Process c"
  shows "Server_Stop h e s w =
     (case interrupt_err e of
        Some err \<Rightarrow> (Some (Wrap err ''failed to send interrupt signal''), s, w)
      | None \<Rightarrow>
         (case outcome e of
            Timeout \<Rightarrow>
              (case kill_err e of
                 Some err \<Rightarrow> (Some (Wrap err ''failed to kill containerd process''), s,
                              emit (Waited (30 * Second)) (emit Interrupt w))
               | None \<Rightarrow> (Some ''containerd did not exit gracefully, killed'', s,
                          emit Kill (emit (Waited (30 * Second)) (emit Interrupt w))))
          | Exited err \<Rightarrow>
              (case err of
                 Some err' \<Rightarrow> (Some (Wrap err' ''containerd exited with error''), s\<lparr>running := False\<rparr>, emit Interrupt w)
               | None \<Rightarrow> (None, s\<lparr>running := False\<rparr>, emit Interrupt w))
          | CtxDone \<Rightarrow>
              (case kill_err e of
                 Some err \<Rightarrow> (Some (Wrap err ''failed to kill containerd process on context done''), s, emit Interrupt w)
               | None \<Rightarrow> (Some ''containerd killed due to context cancellation'', s, emit Kill (emit Interrupt w)))))"
proof -
  have c1: "(IsRunningOnMacOS h \<and> vmRunning s) = False" using assms(1) by simp
  have c2: "(IsRunningOnWindows h \<and> wslRunning s) = False" using assms(2) by simp
  have c3: "(\<not> running s \<or> (case cmd s of None \<Rightarrow> True | Some c \<Rightarrow> \<not> Process c)) = False"
    using assms(3-5) by simp
  show ?thesis
    unfolding Server_Stop_def c1 c2 c3 Let_def if_False ..
qed

text \<open>
  C10. For \<open>Server.Stop\<close> on the native backend with a spawned engine (neither the VM
  nor the WSL2 branch applies, \<open>running\<close> is set and the command has a process): when the
  \<open>select\<close> takes the 30 second timeout or the cancellation of the context, \<open>IsRunning\<close>
  is still true afterwards, and the returned errors are the two "killed" errors when the
  kill succeeds; \<open>IsRunning\<close> is false afterwards exactly when the interrupt was delivered
  and the \<open>select\<close> took the exit of the process.
\<close>

theorem Stop_forced_kill_keeps_running:
  assumes "\<not> (IsRunningOnMacOS h \<and> vmRunning s)" "\<not> (IsRunningOnWindows h \<and> wslRunning s)"
    "running s" "cmd s = Some c" "Process c"
    and "Server_Stop h e s w = (r, s', w')"
  shows "(outcome e = Timeout \<or> outcome e = CtxDone \<longrightarrow> IsRunning s')
       \<and> (interrupt_err e = None \<and> outcome e = Timeout \<and> kill_err e = None \<longrightarrow>
            r = Some ''containerd did not exit gracefully, killed'')
       \<and> (interrupt_err e = None \<and> outcome e = CtxDone \<and> kill_err e = None \<longrightarrow>
            r = Some ''containerd killed due to context cancellation'')
       \<and> (\<not> IsRunning s' \<longleftrightarrow> interrupt_err e = None \<and> (\<exists>err. outcome e = Exited err))"
proof -
  note eq = assms(6)[unfolded Server_Stop_native[OF assms(1-5)]]
  show ?thesis
  proof (cases "interrupt_err e")
    case (Some err)
    with eq assms(3) show ?thesis by (auto simp: IsRunning_def)
  next
    case None
    show ?thesis
    proof (cases "outcome e")
      case Timeout
      with eq None assms(3) show ?thesis by (cases "kill_err e") (auto simp: IsRunning_def)
    next
      case (Exited err)
      with eq None assms(3) show ?thesis by (cases err) (auto simp: IsRunning_def)
    next
      case CtxDone
      with eq None assms(3) show ?thesis by (cases "kill_err e") (auto simp: IsRunning_def)
    qed
  qed
qed

theorem Stop_forced_kill_keeps_running_witness:
  "fst (Server_Stop linux_host stubborn started_server fresh_world) = Some ''containerd did not exit gracefully, killed''
   \<and> IsRunning (fst (snd (Server_Stop linux_host stubborn started_server fresh_world)))"
proof -
  have a: "\<not> (IsRunningOnMacOS linux_host \<and> vmRunning started_server)"
    by (simp add: IsRunningOnMacOS_def linux_host_def)
  have b: "\<not> (IsRunningOnWindows linux_host \<and> wslRunning started_server)"
    by (simp add: IsRunningOnWindows_def linux_host_def)
  have c: "running started_server" by (simp add: started_server_def)
  have d: "cmd started_server = Some started_cmd" by (simp add: started_server_def)
  have p: "Process started_cmd" by (simp add: started_cmd_def)
  have e: "interrupt_err stubborn = None \<and> outcome stubborn = Timeout \<and> kill_err stubborn = None"
    by (simp add: stubborn_def)
  obtain r s' w' where eq: "Server_Stop linux_host stubborn started_server fresh_world = (r, s', w')"
    using prod_cases3 by blast
  from Stop_forced_kill_keeps_running[OF a b c d p eq] e have "r = Some ''containerd did not exit gracefully, killed'' \<and> IsRunning s'"
    by simp
  with eq show ?thesis by simp
qed

text \<open>
  C2, as stated, fails. After the sample start-up on Linux, a \<open>Stop\<close> whose process
  ignores the interrupt for 30 seconds returns the error "containerd did not exit
  gracefully, killed", not success; and a \<open>Stop\<close> whose process has already exited with a
  failure status returns "containerd exited with error: exit status 2", not success.
\<close>

theorem Stop_escalation_and_failed_exit_return_errors:
  "fst (Server_Stop linux_host stubborn
          (fst (snd (Server_Start linux_host cooperative (NewServer linux_host empty_config) fresh_world)))
          (snd (snd (Server_Start linux_host cooperative (NewServer linux_host empty_config) fresh_world))))
     = Some ''containerd did not exit gracefully, killed''
   \<and> fst (Server_Stop linux_host crashed
          (fst (snd (Server_Start linux_host cooperative (NewServer linux_host empty_config) fresh_world)))
          (snd (snd (Server_Start linux_host cooperative (NewServer linux_host empty_config) fresh_world))))
     = Some ''containerd exited with error: exit status 2''"
  by code_simp

text \<open>
  C2, amended. For every \<open>Stop\<close> of the native backend with a spawned engine to which the
  interrupt has been sent: if the process ignores it past the 30 seconds, \<open>Stop\<close> kills it
  (interrupt, a wait of 30 seconds, kill) and, when the kill succeeds, returns the error
  "containerd did not exit gracefully, killed"; if the process exits, \<open>Stop\<close> returns no
  error when the wait reports a clean exit, and the error "containerd exited with error"
  wrapping the error of the wait otherwise. Every case returns: no branch panics.
\<close>

theorem Stop_native_outcomes:
  assumes "\<not> (IsRunningOnMacOS h \<and> vmRunning s)" "\<not> (IsRunningOnWindows h \<and> wslRunning s)"
    "running s" "cmd s = Some c" "Process c"
    and "interrupt_err e = None"
    and "Server_Stop h e s w = (r, s', w')"
  shows "(outcome e = Timeout \<and> kill_err e = None \<longrightarrow>
            r = Some ''containerd did not exit gracefully, killed'' \<and>
            trace w' = trace w @ [Interrupt, Waited (30 * Second), Kill])
       \<and> (outcome e = Exited None \<longrightarrow> r = None)
       \<and> (\<forall>err. outcome e = Exited (Some err) \<longrightarrow>
            r = Some (Wrap err ''containerd exited with error''))"
proof -
  note eq = assms(7)[unfolded Server_Stop_native[OF assms(1-5)]]
  show ?thesis
  proof (cases "outcome e")
    case Timeout
    with eq assms(6) show ?thesis by (cases "kill_err e") (auto simp: emit_def)
  next
    case (Exited err)
    with eq assms(6) show ?thesis by (cases err) auto
  next
    case CtxDone
    with eq assms(6) show ?thesis by (cases "kill_err e") auto
  qed
qed

theorem Stop_native_outcomes_witness:
  "fst (Server_Stop linux_host graceful started_server fresh_world) = None
   \<and> fst (Server_Stop linux_host crashed started_server fresh_world)
       = Some (Wrap ''exit status 2'' ''containerd exited with error'')"
proof -
  have a: "\<not> (IsRunningOnMacOS linux_host \<and> vmRunning started_server)"
    by (simp add: IsRunningOnMacOS_def linux_host_def)
  have b: "\<not> (IsRunningOnWindows linux_host \<and> wslRunning started_server)"
    by (simp add: IsRunningOnWindows_def linux_host_def)
  have c: "running started_server" by (simp add: started_server_def)
  have d: "cmd started_server = Some started_cmd" by (simp add: started_server_def)
  have p: "Process started_cmd" by (simp add: started_cmd_def)
  have g: "interrupt_err graceful = None" "outcome graceful = Exited None"
    by (simp_all add: graceful_def)
  have k: "interrupt_err crashed = None" "outcome crashed = Exited (Some ''exit status 2'')"
    by (simp_all add: crashed_def)
  obtain r s' w' where eq: "Server_Stop linux_host graceful started_server fresh_world = (r, s', w')"
    using prod_cases3 by blast
  obtain r2 s2 w2 where eq2: "Server_Stop linux_host crashed started_server fresh_world = (r2, s2, w2)"
    using prod_cases3 by blast
  from Stop_native_outcomes[OF a b c d p g(1) eq] g(2) have "r = None" by simp
  moreover from Stop_native_outcomes[OF a b c d p k(1) eq2] k(2)
  have "r2 = Some (Wrap ''exit status 2'' ''containerd exited with error'')" by simp
  ultimately show ?thesis using eq eq2 by simp
qed

lemma Server_Stop_stopped:
  "\<not> vmRunning s \<Longrightarrow> \<not> wslRunning s \<Longrightarrow> \<not> running s \<Longrightarrow> Server_Stop h e s w = (None, s, w)"
  by (simp add: Server_Stop_def)

text \<open>
  C7. \<open>Manager.Stop\<close> on a manager on which nothing was ever started (as \<open>NewManager\<close>
  returns it, for every configuration and so every run mode) returns no error and
  changes nothing; and after any \<open>Stop\<close> of any manager, whatever it returned, a second
  \<open>Stop\<close> returns no error and changes nothing. The same holds of \<open>Server.Stop\<close> on a new
  server.
\<close>

theorem Stop_idempotent:
  "Manager_Stop h e (NewManager c) w = (None, NewManager c, w)
   \<and> Manager_Stop h e' (fst (snd (Manager_Stop h e m w))) (snd (snd (Manager_Stop h e m w)))
       = (None, fst (snd (Manager_Stop h e m w)), snd (snd (Manager_Stop h e m w)))
   \<and> Server_Stop h e (NewServer h sc) w = (None, NewServer h sc, w)"
proof -
  have none: "Manager_Stop h x m0 w0 = (None, m0, w0)"
    if "Manager.client m0 = None" "server m0 = None" for x m0 w0
    using that by (simp add: Manager_Stop_def)
  have new: "Manager.client (NewManager c) = None \<and> server (NewManager c) = None"
    by (simp add: NewManager_def Let_def)
  have after: "Manager.client (fst (snd (Manager_Stop h e m w))) = None \<and>
               server (fst (snd (Manager_Stop h e m w))) = None"
    by (cases "Manager.client m"; cases "server m")
       (simp_all add: Manager_Stop_def split: option.splits prod.splits)
  have srv: "Server_Stop h e (NewServer h sc) w = (None, NewServer h sc, w)"
    by (rule Server_Stop_stopped) (simp_all add: NewServer_def Let_def)
  from none new after srv show ?thesis by simp
qed

theorem Stop_idempotent_witness:
  "Manager_Stop linux_host graceful
      (NewManager \<lparr>RunAs = ''both'', ServerConfig = empty_config, ClientSocket = '''', Namespace = ''''\<rparr>)
      fresh_world
   = (None, NewManager \<lparr>RunAs = ''both'', ServerConfig = empty_config, ClientSocket = '''', Namespace = ''''\<rparr>,
      fresh_world)"
  using Stop_idempotent[of linux_host graceful
      "\<lparr>RunAs = ''both'', ServerConfig = empty_config, ClientSocket = '''', Namespace = ''''\<rparr>" fresh_world]
  by simp

section \<open>Properties of \<open>Start\<close>\<close>

lemma counts_emit: "counts P (emit ev w) = counts P w + (if P ev then 1 else 0)"
  by (simp add: counts_def emit_def)

lemma counts_emit_other: "about_engine P \<Longrightarrow> \<not> engine_event ev \<Longrightarrow> counts P (emit ev w) = counts P w"
  by (auto simp: counts_emit about_engine_def)

lemma counts_fields [simp]:
  "counts P (w\<lparr>cache := c\<rparr>) = counts P w"
  "counts P (w\<lparr>cni := d\<rparr>) = counts P w"
  by (simp_all add: counts_def)

lemma counts_MkdirAll_cache:
  "about_engine P \<Longrightarrow> counts P (snd (MkdirAll_cache h f w)) = counts P w"
  by (simp add: MkdirAll_cache_def counts_emit_other split: option.splits)

lemma counts_MkdirAll_cni:
  "about_engine P \<Longrightarrow> counts P (snd (MkdirAll_cni h f w)) = counts P w"
  by (simp add: MkdirAll_cni_def counts_emit_other split: option.splits)

lemma counts_open_create:
  "about_engine P \<Longrightarrow> counts P (snd (open_create path name perm d w)) = counts P w"
  by (simp add: open_create_def counts_emit_other split: option.splits)

lemma counts_io_Copy:
  "about_engine P \<Longrightarrow> counts P (snd (snd (io_Copy f path name src d w))) = counts P w"
  by (simp add: io_Copy_def counts_emit_other split: option.splits prod.splits)

lemma counts_copy_to_cache:
  "about_engine P \<Longrightarrow> counts P (snd (copy_to_cache f sp bp exe src msg w)) = counts P w"
  by (simp add: copy_to_cache_def Let_def case_prod_beta counts_io_Copy counts_open_create
      split: option.splits)

lemma counts_extractBundledContainerd:
  "about_engine P \<Longrightarrow> counts P (snd (extractBundledContainerd h f w)) = counts P w"
  by (simp add: extractBundledContainerd_def Let_def case_prod_beta counts_copy_to_cache
      counts_MkdirAll_cache split: option.splits sum.splits)

lemma counts_EnsureBundledRuncExtracted:
  "about_engine P \<Longrightarrow> counts P (snd (EnsureBundledRuncExtracted h f w)) = counts P w"
  by (simp add: EnsureBundledRuncExtracted_def Let_def case_prod_beta counts_copy_to_cache
      counts_MkdirAll_cache split: option.splits sum.splits)

lemma counts_EnsureBundledHyperKitExtracted:
  "about_engine P \<Longrightarrow> counts P (snd (EnsureBundledHyperKitExtracted h f w)) = counts P w"
  by (simp add: EnsureBundledHyperKitExtracted_def Let_def case_prod_beta counts_copy_to_cache
      counts_MkdirAll_cache split: option.splits sum.splits)

lemma counts_copy_plugin:
  "about_engine P \<Longrightarrow> counts P (snd (snd (copy_plugin h f sd cd entry d w))) = counts P w"
  by (simp add: copy_plugin_def Let_def case_prod_beta counts_io_Copy counts_open_create
      split: option.splits)

lemma counts_copy_plugins:
  "about_engine P \<Longrightarrow> counts P (snd (snd (copy_plugins h f sd cd entries d w))) = counts P w"
proof (induction entries arbitrary: d w)
  case Nil
  then show ?case by simp
next
  case (Cons entry entries)
  obtain r d2 w2 where cp: "copy_plugin h f sd cd entry d w = (r, d2, w2)"
    using prod_cases3 by blast
  have w2: "counts P w2 = counts P w"
    using counts_copy_plugin[OF Cons.prems, of h f sd cd entry d w] cp by simp
  show ?case
  proof (cases r)
    case None
    with cp w2 Cons.IH[OF Cons.prems, of d2 w2] show ?thesis by simp
  next
    case (Some e)
    with cp w2 show ?thesis by simp
  qed
qed

lemma counts_EnsureBundledCNIPluginsExtracted:
  "about_engine P \<Longrightarrow> counts P (snd (EnsureBundledCNIPluginsExtracted h f w)) = counts P w"
  by (simp add: EnsureBundledCNIPluginsExtracted_def Let_def case_prod_beta counts_copy_plugins
      counts_MkdirAll_cni split: option.splits sum.splits)

lemma counts_EnsureAllBundledComponentsExtracted:
  "about_engine P \<Longrightarrow> counts P (snd (EnsureAllBundledComponentsExtracted h f w)) = counts P w"
  by (simp add: EnsureAllBundledComponentsExtracted_def EnsureBundledContainerdExtracted_def
      case_prod_beta counts_extractBundledContainerd counts_EnsureBundledRuncExtracted
      counts_EnsureBundledCNIPluginsExtracted counts_EnsureBundledHyperKitExtracted
      split: option.splits)

lemma counts_check_components:
  "about_engine P \<Longrightarrow> counts P (snd (check_components h e x w)) = counts P w"
  by (simp add: check_components_def counts_emit_other)


lemma about_engine_spawn: "about_engine is_engine_spawn"
  unfolding about_engine_def by (intro allI impI) (erule is_engine_spawn.elims, simp_all)

lemma about_engine_kill: "about_engine (\<lambda>ev. ev = Kill)"
  by (simp add: about_engine_def)

lemma counts_StartWSL2Environment:
  "about_engine P \<Longrightarrow> counts P (snd (StartWSL2Environment e c w)) = counts P w"
  by (simp add: StartWSL2Environment_def Let_def counts_emit_other split: option.splits)

lemma poll_socket_unreachable:
  "(\<forall>t'. t < t' \<and> t' \<le> timeout \<longrightarrow> \<not> stat t') \<Longrightarrow>
   poll_socket stat tf p timeout t = (Some (timeout_error p), max t timeout)"
proof (induction stat tf p timeout t rule: poll_socket.induct)
  case (1 stat tf p timeout t)
  let ?next = "t + 100 * Millisecond"
  show ?case
  proof (cases "?next < timeout \<or> (?next = timeout \<and> tf)")
    case True
    then have le: "?next \<le> timeout" by auto
    have lt: "t < ?next" by (simp add: Millisecond_def)
    from "1.prems" le lt have ns: "\<not> stat ?next" by simp
    have "poll_socket stat tf p timeout ?next = (Some (timeout_error p), max ?next timeout)"
    proof (rule "1.IH"[OF refl True ns])
      show "\<forall>t'. ?next < t' \<and> t' \<le> timeout \<longrightarrow> \<not> stat t'"
        using "1.prems" lt by auto
    qed
    moreover have "max ?next timeout = max t timeout" using le lt by simp
    ultimately show ?thesis
      using True ns by (subst poll_socket.simps) (simp add: Let_def)
  next
    case False
    then show ?thesis by (subst poll_socket.simps) (auto simp: Let_def)
  qed
qed

lemma WaitForSocket_unreachable:
  "(\<forall>t. 0 < t \<and> t \<le> timeout \<longrightarrow> \<not> stat t) \<Longrightarrow>
   WaitForSocket stat tf p timeout = (Some (timeout_error p), max 0 timeout)"
  by (simp add: WaitForSocket_def ctx_deadline_exceeded_def poll_socket_unreachable)

lemma startNative_shape:
  "(\<exists>err. startNative h e s w =
      (Some err, s, snd (check_components h e (fst (EnsureAllBundledComponentsExtracted h e w))
                          (snd (EnsureAllBundledComponentsExtracted h e w)))))
   \<or> (\<exists>p a. startNative h e s w =
      spawn_and_wait e s (snd (check_components h e (fst (EnsureAllBundledComponentsExtracted h e w))
                          (snd (EnsureAllBundledComponentsExtracted h e w)))) p a)"
  unfolding startNative_def
  by (auto simp: case_prod_beta Let_def split: option.splits sum.splits)


lemma spawn_and_wait_unreachable:
  assumes un: "\<forall>t. 0 < t \<and> t \<le> 30 * Second \<longrightarrow> \<not> socket_stat e t"
  shows "spawn_and_wait e s w p a =
     (case create_err e (LogFile (Server.config s)) of
        Some err \<Rightarrow> (Some (Wrap err ''failed to open log file''),
                     s\<lparr>cmd := Some \<lparr>Path = p, Args = p # a, Process = False\<rparr>\<rparr>, w)
      | None \<Rightarrow>
         (case cmd_start_err e of
            Some err \<Rightarrow> (Some (Wrap err ''failed to start containerd''),
                         s\<lparr>cmd := Some \<lparr>Path = p, Args = p # a, Process = False\<rparr>\<rparr>, emit CloseLogFile w)
          | None \<Rightarrow>
              (Some (Wrap (timeout_error (Address (Server.config s))) ''failed waiting for containerd to start''),
               s\<lparr>cmd := Some \<lparr>Path = p, Args = p # a, Process = True\<rparr>\<rparr>,
               emit CloseLogFile (emit Kill (emit (Waited (30 * Second)) (emit (SpawnEngine p a) w))))))"
proof -
  have wt: "WaitForSocket (socket_stat e) (tick_first e) (Address (Server.config s)) (30 * Second)
        = (Some (timeout_error (Address (Server.config s))), 30 * Second)"
    using WaitForSocket_unreachable[OF un] by (simp add: Second_def Millisecond_def)
  show ?thesis
    by (simp add: spawn_and_wait_def Let_def wt split: option.splits)
qed

lemma counts_native_world: "about_engine P \<Longrightarrow> counts P (native_world h e w) = counts P w"
  by (simp add: native_world_def counts_check_components counts_EnsureAllBundledComponentsExtracted)

lemma startNative_timeout:
  assumes sn: "startNative h e s w = (r, s', w')"
    and nr: "\<not> running s"
    and sp: "engine_spawns w < engine_spawns w'"
    and un: "\<forall>t. 0 < t \<and> t \<le> 30 * Second \<longrightarrow> \<not> socket_stat e t"
  shows "r = Some (Wrap (timeout_error (Address (Server.config s))) ''failed waiting for containerd to start'')
       \<and> kills w' = Suc (kills w) \<and> \<not> running s'
       \<and> (\<exists>evs p a. trace w' = evs @ [SpawnEngine p a, Waited (30 * Second), Kill, CloseLogFile])"
proof -
  let ?w2 = "native_world h e w"
  have es: "engine_spawns ?w2 = engine_spawns w" and ks: "kills ?w2 = kills w"
    using counts_native_world[OF about_engine_spawn] counts_native_world[OF about_engine_kill]
    by (simp_all add: engine_spawns_def kills_def)
  from startNative_shape[of h e s w, folded native_world_def]
  consider (early) err where "startNative h e s w = (Some err, s, ?w2)"
    | (spawn) p a where "startNative h e s w = spawn_and_wait e s ?w2 p a"
    by blast
  then show ?thesis
  proof cases
    case early
    with sn sp es show ?thesis by simp
  next
    case (spawn p a)
    note eq = sn[unfolded spawn spawn_and_wait_unreachable[OF un]]
    show ?thesis
    proof (cases "create_err e (LogFile (Server.config s))")
      case (Some err)
      with eq sp es show ?thesis by simp
    next
      case None
      show ?thesis
      proof (cases "cmd_start_err e")
        case (Some err)
        with eq None sp es show ?thesis by (auto simp: engine_spawns_def counts_emit)
      next
        case None2: None
        from eq None None2 have r: "r = Some (Wrap (timeout_error (Address (Server.config s))) ''failed waiting for containerd to start'')"
          and s': "s' = s\<lparr>cmd := Some \<lparr>Path = p, Args = p # a, Process = True\<rparr>\<rparr>"
          and w': "w' = emit CloseLogFile (emit Kill (emit (Waited (30 * Second)) (emit (SpawnEngine p a) ?w2)))"
          by simp_all
        have "kills w' = Suc (kills w)" using ks by (simp add: w' kills_def counts_emit)
        moreover have "trace w' = trace ?w2 @ [SpawnEngine p a, Waited (30 * Second), Kill, CloseLogFile]"
          by (simp add: w' emit_def)
        ultimately show ?thesis using r s' nr by auto
      qed
    qed
  qed
qed

lemma Server_Start_shape:
  assumes nr: "\<not> running s"
  shows "(\<exists>w0. Server_Start h e s w = startNative h e s w0 \<and>
               (\<forall>P. about_engine P \<longrightarrow> counts P w0 = counts P w))
       \<or> (\<exists>r s' w'. Server_Start h e s w = (r, s', w') \<and>
               (\<forall>P. about_engine P \<longrightarrow> counts P w' = counts P w) \<and>
               (s' = s \<or> s' = s\<lparr>vmRunning := True, running := True\<rparr> \<or> s' = s\<lparr>wslRunning := True\<rparr>
                \<or> (IsRunningOnWindows h \<and> r = None \<and>
                    s' = s\<lparr>wslRunning := True,
                          Server.config := (Server.config s)\<lparr>Address := GetWindowsContainerdSocketPath e (wsl2Config s)\<rparr>,
                          running := True\<rparr>)))"
proof (cases "IsRunningOnMacOS h")
  case True
  then show ?thesis using nr
    by (cases "StartLinuxKitVM_err e") (auto simp: Server_Start_def Let_def counts_emit_other)
next
  case nm: False
  show ?thesis
  proof (cases "IsRunningOnWindows h")
    case False
    with nm nr have "Server_Start h e s w = startNative h e s w" by (simp add: Server_Start_def)
    then show ?thesis by blast
  next
    case win: True
    show ?thesis
    proof (cases "Enabled (wsl2Config s) \<and> IsWSL2Available_Start e")
      case False
      let ?w0 = "if Enabled (wsl2Config s)
                 then emit (Log ''Using native Windows container runtime'') (emit (Log wsl2_unavailable_notice) w)
                 else emit (Log ''Using native Windows container runtime'') w"
      from False nm win nr have "Server_Start h e s w = startNative h e s ?w0"
        by (auto simp: Server_Start_def)
      moreover have "\<forall>P. about_engine P \<longrightarrow> counts P ?w0 = counts P w"
        by (simp add: counts_emit_other)
      ultimately show ?thesis by blast
    next
      case True
      let ?w1 = "emit (Log ''Starting WSL2 environment for containerd on Windows'') w"
      obtain x wx where wsl: "StartWSL2Environment e (wsl2Config s) ?w1 = (x, wx)"
        by (cases "StartWSL2Environment e (wsl2Config s) ?w1")
      have cx: "counts P wx = counts P w" if "about_engine P" for P
        using counts_StartWSL2Environment[OF that, of e "wsl2Config s" ?w1] wsl that
        by (simp add: counts_emit_other)
      show ?thesis
      proof (cases x)
        case (Some err)
        let ?w0 = "emit (Log ''Using native Windows container runtime'') (emit (Log (wsl2_failed_notice err)) wx)"
        from True nm win nr wsl Some have "Server_Start h e s w = startNative h e s ?w0"
          by (simp add: Server_Start_def)
        moreover have "\<forall>P. about_engine P \<longrightarrow> counts P ?w0 = counts P w"
          using cx by (simp add: counts_emit_other)
        ultimately show ?thesis by blast
      next
        case None
        with True nm win nr wsl cx show ?thesis
          by (cases "EnsureContainerdInWSL_err e") (auto simp: Server_Start_def Let_def)
      qed
    qed
  qed
qed

text \<open>
  C5. If a \<open>Start\<close> of a server that is not running spawns the engine subprocess, and no
  probe of the control address succeeds within the 30 seconds of the readiness wait,
  then \<open>Start\<close> returns the wrapped timeout error of \<open>WaitForSocket\<close>, it has killed the
  subprocess (one more kill in the trace, which ends: spawn, 30 seconds waited, kill,
  log file closed), and \<open>IsRunning\<close> is false afterwards.
\<close>

theorem Start_readiness_timeout:
  assumes st: "Server_Start h e s w = (r, s', w')"
    and nr: "\<not> running s"
    and sp: "engine_spawns w < engine_spawns w'"
    and un: "\<forall>t. 0 < t \<and> t \<le> 30 * Second \<longrightarrow> \<not> socket_stat e t"
  shows "r = Some (Wrap (timeout_error (Address (Server.config s))) ''failed waiting for containerd to start'')
       \<and> kills w' = Suc (kills w) \<and> \<not> IsRunning s'
       \<and> (\<exists>evs p a. trace w' = evs @ [SpawnEngine p a, Waited (30 * Second), Kill, CloseLogFile])"
proof -
  from Server_Start_shape[OF nr, of h e w]
  consider (native) w0 where "Server_Start h e s w = startNative h e s w0"
      "\<forall>P. about_engine P \<longrightarrow> counts P w0 = counts P w"
    | (other) "\<forall>P. about_engine P \<longrightarrow> counts P w' = counts P w"
    using st by auto
  then show ?thesis
  proof cases
    case (native w0)
    have es: "engine_spawns w0 = engine_spawns w" and ks: "kills w0 = kills w"
      using native(2) about_engine_spawn about_engine_kill by (simp_all add: engine_spawns_def kills_def)
    from startNative_timeout[OF st[unfolded native(1)] nr _ un] sp es ks
    show ?thesis by (simp add: IsRunning_def)
  next
    case other
    with about_engine_spawn sp show ?thesis by (simp add: engine_spawns_def)
  qed
qed

theorem Start_readiness_timeout_witness:
  "fst (Server_Start linux_host unresponsive (NewServer linux_host empty_config) fresh_world)
     = Some (Wrap (timeout_error ''/home/u/.fun/containerd/containerd.sock'')
               ''failed waiting for containerd to start'')
   \<and> kills (snd (snd (Server_Start linux_host unresponsive (NewServer linux_host empty_config) fresh_world))) = 1
   \<and> IsRunning (fst (snd (Server_Start linux_host unresponsive (NewServer linux_host empty_config) fresh_world))) = False"
proof -
  obtain r s' w' where eq:
    "Server_Start linux_host unresponsive (NewServer linux_host empty_config) fresh_world = (r, s', w')"
    using prod_cases3 by blast
  have nr: "\<not> running (NewServer linux_host empty_config)" by (simp add: NewServer_def Let_def)
  have "engine_spawns fresh_world
      < engine_spawns (snd (snd (Server_Start linux_host unresponsive (NewServer linux_host empty_config) fresh_world)))"
    by code_simp
  then have sp: "engine_spawns fresh_world < engine_spawns w'" by (simp add: eq)
  have un: "\<forall>t. 0 < t \<and> t \<le> 30 * Second \<longrightarrow> \<not> socket_stat unresponsive t"
    by (simp add: unresponsive_def)
  have addr: "Address (Server.config (NewServer linux_host empty_config)) = ''/home/u/.fun/containerd/containerd.sock''"
    by code_simp
  have k0: "kills fresh_world = 0" by code_simp
  from Start_readiness_timeout[OF eq nr sp un] addr k0 eq show ?thesis by simp
qed

section \<open>The native start-up does not depend on the trace\<close>

lemma same_files_refl [simp]: "same_files w w"
  by (simp add: same_files_def)

lemma same_files_emit: "same_files a b \<Longrightarrow> same_files (emit ev a) b"
  by (simp add: same_files_def emit_def)

lemma same_files_emit2: "same_files a b \<Longrightarrow> same_files (emit ev a) (emit ev' b)"
  by (simp add: same_files_def emit_def)

lemma same_files_fields:
  "same_files a b \<Longrightarrow> cache a = cache b"
  "same_files a b \<Longrightarrow> cni a = cni b"
  "same_files a b \<Longrightarrow> bundled a = bundled b"
  "same_files a b \<Longrightarrow> bundled_cni a = bundled_cni b"
  "same_files a b \<Longrightarrow> stat_cache a n = stat_cache b n"
  by (simp_all add: same_files_def stat_cache_def)

lemma sf_MkdirAll_cache:
  "same_files a b \<Longrightarrow> fst (MkdirAll_cache h f a) = fst (MkdirAll_cache h f b) \<and>
     same_files (snd (MkdirAll_cache h f a)) (snd (MkdirAll_cache h f b))"
  by (simp add: MkdirAll_cache_def same_files_def emit_def split: option.splits)

lemma sf_MkdirAll_cni:
  "same_files a b \<Longrightarrow> fst (MkdirAll_cni h f a) = fst (MkdirAll_cni h f b) \<and>
     same_files (snd (MkdirAll_cni h f a)) (snd (MkdirAll_cni h f b))"
  by (simp add: MkdirAll_cni_def same_files_def emit_def split: option.splits)

lemma sf_open_create:
  "same_files a b \<Longrightarrow> fst (open_create p n m d a) = fst (open_create p n m d b) \<and>
     same_files (snd (open_create p n m d a)) (snd (open_create p n m d b))"
  by (simp add: open_create_def same_files_def emit_def split: option.splits)

lemma sf_io_Copy:
  "same_files a b \<Longrightarrow> fst (io_Copy f p n src d a) = fst (io_Copy f p n src d b) \<and>
     fst (snd (io_Copy f p n src d a)) = fst (snd (io_Copy f p n src d b)) \<and>
     same_files (snd (snd (io_Copy f p n src d a))) (snd (snd (io_Copy f p n src d b)))"
  by (simp add: io_Copy_def same_files_def emit_def case_prod_beta split: option.splits)

lemma sf_copy_to_cache:
  assumes "same_files a b"
  shows "fst (copy_to_cache f sp bp exe src msg a) = fst (copy_to_cache f sp bp exe src msg b) \<and>
     same_files (snd (copy_to_cache f sp bp exe src msg a)) (snd (copy_to_cache f sp bp exe src msg b))"
proof (cases "cache b")
  case None
  with assms show ?thesis
    by (simp add: copy_to_cache_def same_files_fields(1)[OF assms] split: option.splits)
next
  case (Some d)
  let ?oa = "open_create bp exe perm_0755 d a" and ?ob = "open_create bp exe perm_0755 d b"
  note oc = sf_open_create[OF assms, of bp exe perm_0755 d]
  note io = sf_io_Copy[OF oc[THEN conjunct2], of f bp exe "bytes src" "fst ?ob"]
  from Some oc io assms show ?thesis
    by (simp add: copy_to_cache_def same_files_fields(1)[OF assms] Let_def case_prod_beta
        same_files_def split: option.splits)
qed


lemma sf_extractBundledContainerd:
  assumes "same_files a b"
  shows "fst (extractBundledContainerd h f a) = fst (extractBundledContainerd h f b) \<and>
     same_files (snd (extractBundledContainerd h f a)) (snd (extractBundledContainerd h f b))"
proof -
  note mk = sf_MkdirAll_cache[OF assms, of h f]
  note flds = same_files_fields[OF mk[THEN conjunct2]]
  note cp = sf_copy_to_cache[OF mk[THEN conjunct2]]
  show ?thesis
    by (simp add: extractBundledContainerd_def Let_def case_prod_beta mk flds cp
        split: option.splits sum.splits)
qed

lemma sf_EnsureBundledRuncExtracted:
  assumes "same_files a b"
  shows "fst (EnsureBundledRuncExtracted h f a) = fst (EnsureBundledRuncExtracted h f b) \<and>
     same_files (snd (EnsureBundledRuncExtracted h f a)) (snd (EnsureBundledRuncExtracted h f b))"
proof -
  note mk = sf_MkdirAll_cache[OF assms, of h f]
  note flds = same_files_fields[OF mk[THEN conjunct2]]
  note cp = sf_copy_to_cache[OF mk[THEN conjunct2]]
  show ?thesis
    by (simp add: EnsureBundledRuncExtracted_def Let_def case_prod_beta mk flds cp
        split: option.splits sum.splits)
qed

lemma sf_EnsureBundledHyperKitExtracted:
  assumes "same_files a b"
  shows "fst (EnsureBundledHyperKitExtracted h f a) = fst (EnsureBundledHyperKitExtracted h f b) \<and>
     same_files (snd (EnsureBundledHyperKitExtracted h f a)) (snd (EnsureBundledHyperKitExtracted h f b))"
proof -
  note mk = sf_MkdirAll_cache[OF assms, of h f]
  note flds = same_files_fields[OF mk[THEN conjunct2]]
  note cp = sf_copy_to_cache[OF mk[THEN conjunct2]]
  show ?thesis
    by (simp add: EnsureBundledHyperKitExtracted_def Let_def case_prod_beta mk flds cp
        split: option.splits sum.splits)
qed

lemma sf_copy_plugin:
  assumes "same_files a b"
  shows "fst (copy_plugin h f sd cd entry d a) = fst (copy_plugin h f sd cd entry d b) \<and>
     fst (snd (copy_plugin h f sd cd entry d a)) = fst (snd (copy_plugin h f sd cd entry d b)) \<and>
     same_files (snd (snd (copy_plugin h f sd cd entry d a))) (snd (snd (copy_plugin h f sd cd entry d b)))"
proof -
  obtain name isDir src where entry: "entry = (name, isDir, src)" using prod_cases3 by blast
  let ?dp = "Join (GOOS h) [cd, name]"
  note oc = sf_open_create[OF assms, of ?dp name perm_0755 d]
  note io = sf_io_Copy[OF oc[THEN conjunct2], of f ?dp name src "fst (open_create ?dp name perm_0755 d b)"]
  from oc io assms show ?thesis
    by (simp add: copy_plugin_def entry Let_def case_prod_beta split: option.splits)
qed

lemma sf_copy_plugins:
  "same_files a b \<Longrightarrow>
   fst (copy_plugins h f sd cd entries d a) = fst (copy_plugins h f sd cd entries d b) \<and>
   fst (snd (copy_plugins h f sd cd entries d a)) = fst (snd (copy_plugins h f sd cd entries d b)) \<and>
   same_files (snd (snd (copy_plugins h f sd cd entries d a))) (snd (snd (copy_plugins h f sd cd entries d b)))"
proof (induction entries arbitrary: d a b)
  case Nil
  then show ?case by simp
next
  case (Cons entry entries)
  note cp = sf_copy_plugin[OF Cons.prems, of h f sd cd entry d]
  obtain ra da wa where a: "copy_plugin h f sd cd entry d a = (ra, da, wa)" using prod_cases3 by blast
  obtain rb db wb where b: "copy_plugin h f sd cd entry d b = (rb, db, wb)" using prod_cases3 by blast
  from cp a b have eq: "ra = rb" "da = db" and sf: "same_files wa wb" by simp_all
  show ?case
  proof (cases rb)
    case None
    with a b eq Cons.IH[OF sf, of db] show ?thesis by simp
  next
    case (Some e)
    with a b eq sf show ?thesis by simp
  qed
qed

lemma sf_EnsureBundledCNIPluginsExtracted:
  assumes "same_files a b"
  shows "fst (EnsureBundledCNIPluginsExtracted h f a) = fst (EnsureBundledCNIPluginsExtracted h f b) \<and>
     same_files (snd (EnsureBundledCNIPluginsExtracted h f a)) (snd (EnsureBundledCNIPluginsExtracted h f b))"
proof -
  note mk = sf_MkdirAll_cni[OF assms, of h f]
  note flds = same_files_fields[OF mk[THEN conjunct2]]
  note cp = sf_copy_plugins[OF mk[THEN conjunct2], of h f]
  have upd: "same_files x y \<Longrightarrow> same_files (x\<lparr>cni := c\<rparr>) (y\<lparr>cni := c\<rparr>)" for x y c
    by (simp add: same_files_def)
  show ?thesis
    by (auto simp: EnsureBundledCNIPluginsExtracted_def Let_def case_prod_beta mk flds cp upd
        split: option.splits sum.splits)
qed

lemma sf_EnsureAllBundledComponentsExtracted:
  assumes "same_files a b"
  shows "fst (EnsureAllBundledComponentsExtracted h f a) = fst (EnsureAllBundledComponentsExtracted h f b) \<and>
     same_files (snd (EnsureAllBundledComponentsExtracted h f a)) (snd (EnsureAllBundledComponentsExtracted h f b))"
proof -
  note c = sf_extractBundledContainerd[OF assms, of h f]
  note r = sf_EnsureBundledRuncExtracted[OF c[THEN conjunct2], of h f]
  note n = sf_EnsureBundledCNIPluginsExtracted[OF r[THEN conjunct2], of h f]
  note k = sf_EnsureBundledHyperKitExtracted[OF n[THEN conjunct2], of h f]
  show ?thesis
    by (simp add: EnsureAllBundledComponentsExtracted_def EnsureBundledContainerdExtracted_def
        case_prod_beta c r n k split: option.splits)
qed

lemma sf_paths:
  assumes "same_files a b"
  shows "GetContainerdPath h f a = GetContainerdPath h f b"
    "GetRuncPath h f a = GetRuncPath h f b"
    "GetCNIPath h f a = GetCNIPath h f b"
    "IsContainerdInstalled h f a = IsContainerdInstalled h f b"
    "IsRuncInstalled h f a = IsRuncInstalled h f b"
    "HasCNIPlugins h f a = HasCNIPlugins h f b"
  by (simp_all add: GetContainerdPath_def GetRuncPath_def GetCNIPath_def IsContainerdInstalled_def
      IsRuncInstalled_def HasCNIPlugins_def same_files_fields[OF assms])

lemma sf_check_components:
  assumes "same_files a b"
  shows "fst (check_components h e x a) = fst (check_components h e x b) \<and>
     same_files (snd (check_components h e x a)) (snd (check_components h e x b))"
  using assms by (simp add: check_components_def sf_paths[OF assms] same_files_emit2)

lemma sf_spawn_and_wait:
  assumes "same_files a b"
  shows "fst (spawn_and_wait e s a p args) = fst (spawn_and_wait e s b p args) \<and>
     fst (snd (spawn_and_wait e s a p args)) = fst (snd (spawn_and_wait e s b p args)) \<and>
     same_files (snd (snd (spawn_and_wait e s a p args))) (snd (snd (spawn_and_wait e s b p args)))"
  using assms
  by (simp add: spawn_and_wait_def Let_def case_prod_beta same_files_def emit_def split: option.splits)

lemma sf_startNative:
  assumes "same_files a b"
  shows "fst (startNative h e s a) = fst (startNative h e s b) \<and>
     fst (snd (startNative h e s a)) = fst (snd (startNative h e s b)) \<and>
     same_files (snd (snd (startNative h e s a))) (snd (snd (startNative h e s b)))"
proof -
  note x = sf_EnsureAllBundledComponentsExtracted[OF assms, of h e]
  note c = sf_check_components[OF x[THEN conjunct2], of h e "fst (EnsureAllBundledComponentsExtracted h e b)"]
  note p = sf_paths[OF c[THEN conjunct2], of h e]
  note sw = sf_spawn_and_wait[OF c[THEN conjunct2], of e s]
  have args: "containerd_args h e cfg
        (snd (check_components h e (fst (EnsureAllBundledComponentsExtracted h e b)) (snd (EnsureAllBundledComponentsExtracted h e a)))) rp
      = containerd_args h e cfg
        (snd (check_components h e (fst (EnsureAllBundledComponentsExtracted h e b)) (snd (EnsureAllBundledComponentsExtracted h e b)))) rp"
    for cfg rp
    by (simp add: containerd_args_def p)
  show ?thesis
    by (simp add: startNative_def Let_def case_prod_beta x c p sw args split: option.splits sum.splits)
qed


section \<open>The configuration under \<open>Start\<close> and \<open>Stop\<close>\<close>

text \<open>
  C9, as stated, fails. On the Windows host a new server with the default configuration
  answers the named pipe \<^verbatim>\<open>\\.\pipe\fun-containerd\<close> to \<open>GetSocketAddress\<close>; a \<open>Start\<close> that brings
  WSL2 up succeeds, and \<open>GetSocketAddress\<close> then answers
  \<^verbatim>\<open>wsl://wsl-fun/run/containerd/containerd.sock\<close>.
\<close>

theorem Start_changes_socket_address:
  "GetSocketAddress (NewServer windows_host empty_config) = pipe_prefix @ ''fun-containerd''
   \<and> fst (Server_Start windows_host wsl_up (NewServer windows_host empty_config) empty_world) = None
   \<and> GetSocketAddress (fst (snd (Server_Start windows_host wsl_up (NewServer windows_host empty_config) empty_world)))
       = ''wsl://wsl-fun/run/containerd/containerd.sock''"
  by code_simp

lemma spawn_and_wait_state:
  "\<exists>c. fst (snd (spawn_and_wait e s w p a)) = s\<lparr>cmd := c\<rparr> \<or>
       fst (snd (spawn_and_wait e s w p a)) = s\<lparr>cmd := c, running := True\<rparr>"
  by (auto simp: spawn_and_wait_def Let_def case_prod_beta split: option.splits)

lemma startNative_state:
  "fst (snd (startNative h e s w)) = s \<or>
   (\<exists>c. fst (snd (startNative h e s w)) = s\<lparr>cmd := c\<rparr> \<or>
        fst (snd (startNative h e s w)) = s\<lparr>cmd := c, running := True\<rparr>)"
  using startNative_shape[of h e s w] spawn_and_wait_state[of e s]
  by (metis fst_conv snd_conv)

lemma Server_Start_state:
  "fst (snd (Server_Start h e s w)) = s
   \<or> (\<exists>c. fst (snd (Server_Start h e s w)) = s\<lparr>cmd := c\<rparr> \<or>
          fst (snd (Server_Start h e s w)) = s\<lparr>cmd := c, running := True\<rparr>)
   \<or> fst (snd (Server_Start h e s w)) = s\<lparr>vmRunning := True, running := True\<rparr>
   \<or> fst (snd (Server_Start h e s w)) = s\<lparr>wslRunning := True\<rparr>
   \<or> (IsRunningOnWindows h \<and> fst (Server_Start h e s w) = None \<and>
       fst (snd (Server_Start h e s w)) =
         s\<lparr>wslRunning := True,
           Server.config := (Server.config s)\<lparr>Address := GetWindowsContainerdSocketPath e (wsl2Config s)\<rparr>,
           running := True\<rparr>)"
proof (cases "running s")
  case True
  then show ?thesis by (simp add: Server_Start_def)
next
  case False
  from Server_Start_shape[OF False, of h e w]
  show ?thesis
  proof (elim disjE exE conjE)
    fix w0 assume "Server_Start h e s w = startNative h e s w0"
    with startNative_state[of h e s w0] show ?thesis by auto
  next
    fix r s' w'
    assume "Server_Start h e s w = (r, s', w')" "s' = s"
    then show ?thesis by simp
  next
    fix r s' w'
    assume "Server_Start h e s w = (r, s', w')" "s' = s\<lparr>vmRunning := True, running := True\<rparr>"
    then show ?thesis by simp
  next
    fix r s' w'
    assume "Server_Start h e s w = (r, s', w')" "s' = s\<lparr>wslRunning := True\<rparr>"
    then show ?thesis by simp
  next
    fix r s' w'
    assume "Server_Start h e s w = (r, s', w')" "IsRunningOnWindows h" "r = None"
      "s' = s\<lparr>wslRunning := True,
           Server.config := (Server.config s)\<lparr>Address := GetWindowsContainerdSocketPath e (wsl2Config s)\<rparr>,
           running := True\<rparr>"
    then show ?thesis by simp
  qed
qed

lemma Server_Stop_state:
  "Server.config (fst (snd (Server_Stop h e s w))) = Server.config s \<and>
   wsl2Config (fst (snd (Server_Stop h e s w))) = wsl2Config s \<and>
   linuxKitConfig (fst (snd (Server_Stop h e s w))) = linuxKitConfig s"
  by (simp add: Server_Stop_def Let_def case_prod_beta
      split: option.splits select_outcome.splits)

text \<open>
  C9, amended. \<open>Start\<close> changes neither the WSL2 nor the LinuxKit configuration of a
  server, nor any field of its \<open>ServerConfig\<close> but \<open>Address\<close>; and \<open>GetSocketAddress\<close> is the
  same after \<open>Start\<close> as before, unless \<open>Start\<close> has brought up the WSL2 backend on Windows
  and succeeded, in which case it is the address \<open>GetWindowsContainerdSocketPath\<close> gives
  for the WSL2 configuration. \<open>Stop\<close> changes none of the three configurations. A new
  server answers the configured address, or the default one when none is configured.
\<close>

theorem Start_and_Stop_frame:
  "wsl2Config (fst (snd (Server_Start h e s w))) = wsl2Config s
   \<and> linuxKitConfig (fst (snd (Server_Start h e s w))) = linuxKitConfig s
   \<and> Root (Server.config (fst (snd (Server_Start h e s w)))) = Root (Server.config s)
   \<and> State (Server.config (fst (snd (Server_Start h e s w)))) = State (Server.config s)
   \<and> Config (Server.config (fst (snd (Server_Start h e s w)))) = Config (Server.config s)
   \<and> LogLevel (Server.config (fst (snd (Server_Start h e s w)))) = LogLevel (Server.config s)
   \<and> LogFile (Server.config (fst (snd (Server_Start h e s w)))) = LogFile (Server.config s)
   \<and> (GetSocketAddress (fst (snd (Server_Start h e s w))) = GetSocketAddress s
       \<or> (IsRunningOnWindows h \<and> fst (Server_Start h e s w) = None
           \<and> wslRunning (fst (snd (Server_Start h e s w)))
           \<and> GetSocketAddress (fst (snd (Server_Start h e s w)))
               = GetWindowsContainerdSocketPath e (wsl2Config s)))
   \<and> Server.config (fst (snd (Server_Stop h e' s w))) = Server.config s
   \<and> wsl2Config (fst (snd (Server_Stop h e' s w))) = wsl2Config s
   \<and> linuxKitConfig (fst (snd (Server_Stop h e' s w))) = linuxKitConfig s
   \<and> GetSocketAddress (NewServer h c) = (if Address c = '''' then GetFunSocketPath h else Address c)"
proof -
  have new: "GetSocketAddress (NewServer h c) = (if Address c = '''' then GetFunSocketPath h else Address c)"
    by (simp add: NewServer_def GetSocketAddress_def Let_def)
  from Server_Start_state[of h e s w]
  have start: "wsl2Config (fst (snd (Server_Start h e s w))) = wsl2Config s
   \<and> linuxKitConfig (fst (snd (Server_Start h e s w))) = linuxKitConfig s
   \<and> Root (Server.config (fst (snd (Server_Start h e s w)))) = Root (Server.config s)
   \<and> State (Server.config (fst (snd (Server_Start h e s w)))) = State (Server.config s)
   \<and> Config (Server.config (fst (snd (Server_Start h e s w)))) = Config (Server.config s)
   \<and> LogLevel (Server.config (fst (snd (Server_Start h e s w)))) = LogLevel (Server.config s)
   \<and> LogFile (Server.config (fst (snd (Server_Start h e s w)))) = LogFile (Server.config s)
   \<and> (GetSocketAddress (fst (snd (Server_Start h e s w))) = GetSocketAddress s
       \<or> (IsRunningOnWindows h \<and> fst (Server_Start h e s w) = None
           \<and> wslRunning (fst (snd (Server_Start h e s w)))
           \<and> GetSocketAddress (fst (snd (Server_Start h e s w)))
               = GetWindowsContainerdSocketPath e (wsl2Config s)))"
    by (elim disjE exE conjE) (simp_all add: GetSocketAddress_def)
  from start Server_Stop_state[of h e' s w] new show ?thesis by simp
qed

theorem Start_and_Stop_frame_witness:
  "GetSocketAddress (fst (snd (Server_Start linux_host cooperative (NewServer linux_host empty_config) fresh_world)))
     = ''/home/u/.fun/containerd/containerd.sock''"
proof -
  have nw: "\<not> IsRunningOnWindows linux_host" by (simp add: IsRunningOnWindows_def linux_host_def)
  have addr: "GetSocketAddress (NewServer linux_host empty_config) = ''/home/u/.fun/containerd/containerd.sock''"
    by code_simp
  from Start_and_Stop_frame[of linux_host cooperative "NewServer linux_host empty_config" fresh_world] nw addr
  show ?thesis by simp
qed

section \<open>The fallback from WSL2 to the native backend\<close>

lemma StartWSL2Environment_world:
  "same_files (snd (StartWSL2Environment e c w)) w \<and>
   (\<exists>evs. trace (snd (StartWSL2Environment e c w)) = trace w @ evs)"
  by (simp add: StartWSL2Environment_def Let_def same_files_def emit_def split: option.splits)

text \<open>The native start-up of a server whose control address is a named pipe never
  succeeds: where it spawns the engine, the readiness wait ends in its timeout error
  and the engine is killed.\<close>

lemma WaitForSocket_pipe:
  "HasPrefix p pipe_prefix \<Longrightarrow>
   WaitForSocket stat tf p (30 * Second) = (Some (timeout_error p), 30 * Second)"
  by (simp add: WaitForSocket_def ctx_deadline_exceeded_def Second_def Millisecond_def)

lemma spawn_and_wait_pipe:
  assumes pipe: "HasPrefix (Address (Server.config s)) pipe_prefix"
  shows "spawn_and_wait e s w p a =
     (case create_err e (LogFile (Server.config s)) of
        Some err \<Rightarrow> (Some (Wrap err ''failed to open log file''),
                     s\<lparr>cmd := Some \<lparr>Path = p, Args = p # a, Process = False\<rparr>\<rparr>, w)
      | None \<Rightarrow>
         (case cmd_start_err e of
            Some err \<Rightarrow> (Some (Wrap err ''failed to start containerd''),
                         s\<lparr>cmd := Some \<lparr>Path = p, Args = p # a, Process = False\<rparr>\<rparr>, emit CloseLogFile w)
          | None \<Rightarrow>
              (Some (Wrap (timeout_error (Address (Server.config s))) ''failed waiting for containerd to start''),
               s\<lparr>cmd := Some \<lparr>Path = p, Args = p # a, Process = True\<rparr>\<rparr>,
               emit CloseLogFile (emit Kill (emit (Waited (30 * Second)) (emit (SpawnEngine p a) w))))))"
  by (simp add: spawn_and_wait_def Let_def WaitForSocket_pipe[OF pipe] split: option.splits)

lemma startNative_pipe:
  assumes pipe: "HasPrefix (Address (Server.config s)) pipe_prefix" and nr: "\<not> running s"
  shows "fst (startNative h e s w) \<noteq> None
       \<and> \<not> running (fst (snd (startNative h e s w)))
       \<and> (engine_spawns w < engine_spawns (snd (snd (startNative h e s w))) \<longrightarrow>
            fst (startNative h e s w) =
              Some (Wrap (timeout_error (Address (Server.config s))) ''failed waiting for containerd to start'')
            \<and> kills (snd (snd (startNative h e s w))) = Suc (kills w))"
proof -
  let ?w2 = "native_world h e w"
  have es: "engine_spawns ?w2 = engine_spawns w" and ks: "kills ?w2 = kills w"
    using counts_native_world[OF about_engine_spawn] counts_native_world[OF about_engine_kill]
    by (simp_all add: engine_spawns_def kills_def)
  from startNative_shape[of h e s w, folded native_world_def]
  consider (early) err where "startNative h e s w = (Some err, s, ?w2)"
    | (spawn) p a where "startNative h e s w = spawn_and_wait e s ?w2 p a"
    by blast
  then show ?thesis
  proof cases
    case early
    with nr es show ?thesis by simp
  next
    case (spawn p a)
    note eq = spawn[unfolded spawn_and_wait_pipe[OF pipe]]
    show ?thesis
    proof (cases "create_err e (LogFile (Server.config s))")
      case (Some err)
      with eq nr es show ?thesis by simp
    next
      case None
      show ?thesis
      proof (cases "cmd_start_err e")
        case (Some err)
        with eq None nr es show ?thesis by (simp add: engine_spawns_def counts_emit)
      next
        case None2: None
        with eq None nr ks show ?thesis by (simp add: kills_def counts_emit)
      qed
    qed
  qed
qed

text \<open>
  C1. On Windows, for a server that is not running and whose WSL2 backend is enabled: if
  the WSL2 probe of \<open>Start\<close> fails, or \<open>StartWSL2Environment\<close> returns an error, then \<open>Start\<close>
  is the native start-up, run on the same files after a fallback notice (that WSL2 is
  unavailable, or that it failed to start, with the error) and the line "Using native
  Windows container runtime" have been logged; its error result and the server it
  leaves are those of the native start-up on the given world. But when the control
  address is a named pipe, as the default address of a new server on Windows is, this
  \<open>Start\<close> never succeeds: it returns an error and \<open>IsRunning\<close> stays false, and if it
  has spawned the engine, the error is the timeout of the readiness wait and the engine
  has been killed. On the sample Windows host with WSL2 unavailable, containerd and runc
  on the \<open>PATH\<close> and every operation succeeding, \<open>Start\<close> of a new server with the default
  configuration logs the two lines, spawns the engine, waits 30 seconds, kills it and
  returns the timeout error; with a file path as control address, all else equal, it
  succeeds.
\<close>

theorem Start_fallback_fails_on_named_pipe:
  assumes win: "IsRunningOnWindows h" and nm: "GOOS h = Windows" and nr: "\<not> running s"
    and en: "Enabled (wsl2Config s)"
    and fail: "\<not> IsWSL2Available_Start e \<or>
       fst (StartWSL2Environment e (wsl2Config s)
              (emit (Log ''Starting WSL2 environment for containerd on Windows'') w)) \<noteq> None"
  shows "(\<exists>w0 pre notice.
       Server_Start h e s w = startNative h e s w0 \<and> same_files w0 w
     \<and> trace w0 = trace w @ pre @ [Log notice, Log ''Using native Windows container runtime'']
     \<and> (notice = wsl2_unavailable_notice \<or> (\<exists>err. notice = wsl2_failed_notice err)))
     \<and> fst (Server_Start h e s w) = fst (startNative h e s w)
     \<and> fst (snd (Server_Start h e s w)) = fst (snd (startNative h e s w))
     \<and> (HasPrefix (GetSocketAddress s) pipe_prefix \<longrightarrow>
          fst (Server_Start h e s w) \<noteq> None
        \<and> \<not> IsRunning (fst (snd (Server_Start h e s w)))
        \<and> (engine_spawns w < engine_spawns (snd (snd (Server_Start h e s w))) \<longrightarrow>
             fst (Server_Start h e s w) =
               Some (Wrap (timeout_error (GetSocketAddress s)) ''failed waiting for containerd to start'')
             \<and> kills (snd (snd (Server_Start h e s w))) = Suc (kills w)))
     \<and> (Address c = [] \<longrightarrow> GetSocketAddress (NewServer h c) = pipe_prefix @ ''fun-containerd'')
     \<and> fst default_fallback =
          Some (Wrap (timeout_error (pipe_prefix @ ''fun-containerd'')) ''failed waiting for containerd to start'')
     \<and> IsRunning (fst (snd default_fallback)) = False
     \<and> trace (snd (snd default_fallback)) =
          [Log wsl2_unavailable_notice, Log ''Using native Windows container runtime'',
           MadeDir (backslashed [''C:'', ''Users'', ''u'', ''AppData'', ''Roaming'', ''funserver'', ''bin'']),
           Log ''Warning: CNI plugins are not available, networking functionality may be limited'',
           SpawnEngine (backslashed [''C:'', ''containerd'', ''containerd.exe''])
             [''--root'', backslashed [''C:'', ''Users'', ''u'', ''.fun'', ''containerd'', ''root''],
              ''--state'', backslashed [''C:'', ''Users'', ''u'', ''.fun'', ''containerd'', ''state''],
              ''--address'', pipe_prefix @ ''fun-containerd'', ''--log-level'', ''info''],
           Waited (30 * Second), Kill, CloseLogFile]
     \<and> fst socket_fallback = None
     \<and> IsRunning (fst (snd socket_fallback))"
proof -
  have notmac: "\<not> IsRunningOnMacOS h" using nm by (simp add: IsRunningOnMacOS_def)
  have main: "\<exists>w0 pre notice.
       Server_Start h e s w = startNative h e s w0 \<and> same_files w0 w
     \<and> trace w0 = trace w @ pre @ [Log notice, Log ''Using native Windows container runtime'']
     \<and> (notice = wsl2_unavailable_notice \<or> (\<exists>err. notice = wsl2_failed_notice err))
     \<and> (\<forall>P. about_engine P \<longrightarrow> counts P w0 = counts P w)"
  proof (cases "IsWSL2Available_Start e")
    case False
    let ?w0 = "emit (Log ''Using native Windows container runtime'') (emit (Log wsl2_unavailable_notice) w)"
    have "Server_Start h e s w = startNative h e s ?w0"
      using False win notmac nr en by (simp add: Server_Start_def)
    moreover have "same_files ?w0 w" by (simp add: same_files_def emit_def)
    moreover have "trace ?w0 = trace w @ [] @ [Log wsl2_unavailable_notice, Log ''Using native Windows container runtime'']"
      by (simp add: emit_def)
    moreover have "\<forall>P. about_engine P \<longrightarrow> counts P ?w0 = counts P w"
      by (simp add: counts_emit_other)
    ultimately show ?thesis by blast
  next
    case True
    let ?w1 = "emit (Log ''Starting WSL2 environment for containerd on Windows'') w"
    obtain x wx where wsl: "StartWSL2Environment e (wsl2Config s) ?w1 = (x, wx)"
      by (cases "StartWSL2Environment e (wsl2Config s) ?w1")
    from fail True wsl obtain err where x: "x = Some err" by auto
    from StartWSL2Environment_world[of e "wsl2Config s" ?w1] wsl
    obtain evs where sf: "same_files wx ?w1" and tr: "trace wx = trace ?w1 @ evs" by auto
    let ?w0 = "emit (Log ''Using native Windows container runtime'') (emit (Log (wsl2_failed_notice err)) wx)"
    have "Server_Start h e s w = startNative h e s ?w0"
      using True win notmac nr en wsl x by (simp add: Server_Start_def)
    moreover have "same_files ?w0 w" using sf by (simp add: same_files_def emit_def)
    moreover have "trace ?w0 = trace w @ (Log ''Starting WSL2 environment for containerd on Windows'' # evs)
         @ [Log (wsl2_failed_notice err), Log ''Using native Windows container runtime'']"
      using tr by (simp add: emit_def)
    moreover have "\<forall>P. about_engine P \<longrightarrow> counts P ?w0 = counts P w"
      using counts_StartWSL2Environment[of _ e "wsl2Config s" ?w1] wsl
      by (simp add: counts_emit_other)
    ultimately show ?thesis by blast
  qed
  then obtain w0 pre notice where
    eq: "Server_Start h e s w = startNative h e s w0" and sf: "same_files w0 w"
    and tr: "trace w0 = trace w @ pre @ [Log notice, Log ''Using native Windows container runtime'']"
    and nt: "notice = wsl2_unavailable_notice \<or> (\<exists>err. notice = wsl2_failed_notice err)"
    and cnt: "\<forall>P. about_engine P \<longrightarrow> counts P w0 = counts P w"
    by blast
  from sf_startNative[OF sf, of h e s] eq
  have same: "fst (Server_Start h e s w) = fst (startNative h e s w)"
    "fst (snd (Server_Start h e s w)) = fst (snd (startNative h e s w))"
    by simp_all
  have es: "engine_spawns w0 = engine_spawns w" and ks: "kills w0 = kills w"
    using cnt about_engine_spawn about_engine_kill
    by (simp_all add: engine_spawns_def kills_def)
  have pipe: "fst (Server_Start h e s w) \<noteq> None
        \<and> \<not> IsRunning (fst (snd (Server_Start h e s w)))
        \<and> (engine_spawns w < engine_spawns (snd (snd (Server_Start h e s w))) \<longrightarrow>
             fst (Server_Start h e s w) =
               Some (Wrap (timeout_error (GetSocketAddress s)) ''failed waiting for containerd to start'')
             \<and> kills (snd (snd (Server_Start h e s w))) = Suc (kills w))"
    if "HasPrefix (GetSocketAddress s) pipe_prefix"
    using startNative_pipe[OF that[unfolded GetSocketAddress_def] nr, of h e w0] es ks
    by (simp add: eq IsRunning_def GetSocketAddress_def)
  have dflt: "GetSocketAddress (NewServer h c) = pipe_prefix @ ''fun-containerd''" if "Address c = []"
    using that nm by (simp add: NewServer_def GetSocketAddress_def GetFunSocketPath_def Let_def)
  have d1: "fst default_fallback =
          Some (Wrap (timeout_error (pipe_prefix @ ''fun-containerd'')) ''failed waiting for containerd to start'')"
    by code_simp
  have d2: "IsRunning (fst (snd default_fallback)) = False" by code_simp
  have d3: "trace (snd (snd default_fallback)) =
          [Log wsl2_unavailable_notice, Log ''Using native Windows container runtime'',
           MadeDir (backslashed [''C:'', ''Users'', ''u'', ''AppData'', ''Roaming'', ''funserver'', ''bin'']),
           Log ''Warning: CNI plugins are not available, networking functionality may be limited'',
           SpawnEngine (backslashed [''C:'', ''containerd'', ''containerd.exe''])
             [''--root'', backslashed [''C:'', ''Users'', ''u'', ''.fun'', ''containerd'', ''root''],
              ''--state'', backslashed [''C:'', ''Users'', ''u'', ''.fun'', ''containerd'', ''state''],
              ''--address'', pipe_prefix @ ''fun-containerd'', ''--log-level'', ''info''],
           Waited (30 * Second), Kill, CloseLogFile]"
    by code_simp
  have s1: "fst socket_fallback = None" by code_simp
  have s2: "IsRunning (fst (snd socket_fallback))" by code_simp
  have first: "\<exists>w0 pre notice.
       Server_Start h e s w = startNative h e s w0 \<and> same_files w0 w
     \<and> trace w0 = trace w @ pre @ [Log notice, Log ''Using native Windows container runtime'']
     \<and> (notice = wsl2_unavailable_notice \<or> (\<exists>err. notice = wsl2_failed_notice err))"
    using eq sf tr nt by blast
  from first same pipe dflt d1 d2 d3 s1 s2 show ?thesis by blast
qed

theorem Start_fallback_fails_on_named_pipe_witness:
  "fst (Server_Start windows_host wsl_gone (NewServer windows_host empty_config) empty_world) \<noteq> None
   \<and> kills (snd (snd (Server_Start windows_host wsl_gone (NewServer windows_host empty_config) empty_world))) = 1
   \<and> IsRunning (fst (snd (Server_Start windows_host wsl_gone (NewServer windows_host empty_config) empty_world))) = False"
proof -
  let ?s = "NewServer windows_host empty_config"
  have win: "IsRunningOnWindows windows_host" by (simp add: IsRunningOnWindows_def windows_host_def)
  have nm: "GOOS windows_host = Windows" by (simp add: windows_host_def)
  have nr: "\<not> running ?s" by (simp add: NewServer_def Let_def)
  have en: "Enabled (wsl2Config ?s)"
    by (simp add: NewServer_def Let_def DefaultWSL2Config_def)
  have fail: "\<not> IsWSL2Available_Start wsl_gone \<or>
       fst (StartWSL2Environment wsl_gone (wsl2Config ?s)
              (emit (Log ''Starting WSL2 environment for containerd on Windows'') empty_world)) \<noteq> None"
    by (simp add: wsl_gone_def)
  note T = Start_fallback_fails_on_named_pipe[OF win nm nr en fail, of empty_config]
  have "Address empty_config = []" by (simp add: empty_config_def)
  from T[THEN conjunct2, THEN conjunct2, THEN conjunct2, THEN conjunct2, THEN conjunct1, THEN mp, OF this]
  have addr: "GetSocketAddress ?s = pipe_prefix @ ''fun-containerd''" .
  have pipe: "HasPrefix (GetSocketAddress ?s) pipe_prefix"
    by (simp add: addr HasPrefix_def)
  have sp: "engine_spawns empty_world
      < engine_spawns (snd (snd (Server_Start windows_host wsl_gone ?s empty_world)))"
    by code_simp
  have k0: "kills empty_world = 0" by code_simp
  note P = T[THEN conjunct2, THEN conjunct2, THEN conjunct2, THEN conjunct1, THEN mp, OF pipe]
  from P[THEN conjunct1] P[THEN conjunct2, THEN conjunct1]
    P[THEN conjunct2, THEN conjunct2, THEN mp, OF sp, THEN conjunct2] k0
  show ?thesis by simp
qed

section \<open>More than one backend\<close>

text \<open>
  C8. On the Windows host, with a file path as control address, the first of two \<open>Start\<close>
  calls brings the WSL2 environment up and fails at the installation of containerd
  inside it, leaving \<open>wslRunning\<close> set; the second, with WSL2 now unavailable, falls back
  to the native start-up, spawns the engine and succeeds. The server then records two
  active backends: the WSL2 environment and the native engine. A \<open>Stop\<close> after that takes
  the WSL2 branch, returns success and clears \<open>running\<close> without ever signalling the
  engine. And a single \<open>Start\<close> with the default configuration, in which the WSL2
  distribution is launched and the mount then fails, spawns the native engine as well,
  with \<open>wslRunning\<close> left unset.
\<close>

theorem Start_after_failed_WSL2_start_runs_two_backends:
  "fst first_start = Some (Wrap ''exit status 100'' ''failed to ensure containerd is installed in WSL2'')
   \<and> active_backends (fst (snd first_start)) = 1
   \<and> fst second_start = None
   \<and> wslRunning (fst (snd second_start)) \<and> IsRunning (fst (snd second_start))
   \<and> engine_spawns (snd (snd second_start)) = 1
   \<and> active_backends (fst (snd second_start)) = 2
   \<and> fst third_stop = None
   \<and> IsRunning (fst (snd third_stop)) = False
   \<and> counts (\<lambda>ev. ev = Interrupt \<or> ev = Kill) (snd (snd third_stop)) = 0
   \<and> counts is_wsl_spawn (snd (snd mount_fails_start)) = 1
   \<and> engine_spawns (snd (snd mount_fails_start)) = 1
   \<and> wslRunning (fst (snd mount_fails_start)) = False"
  by code_simp

end
